theory Spec2Isabelle
  imports Main "HOL-Library.Multiset"
begin

section \<open>The code generator of \<^verbatim>\<open>codegen/codegen.go\<close>\<close>

text \<open>
  A shallow embedding of package \<^verbatim>\<open>codegen\<close>: \<^verbatim>\<open>Generate\<close>, \<^verbatim>\<open>generateType\<close>,
  \<^verbatim>\<open>generateField\<close>, \<^verbatim>\<open>getImports\<close>, \<^verbatim>\<open>getTypeName\<close> and \<^verbatim>\<open>removeDuplicates\<close>.
  Go strings are byte strings (\<^typ>\<open>string\<close>). A Go function returning \<^verbatim>\<open>(v, err)\<close> is a
  function into \<open>error + 'a\<close>; a run-time panic is the error \<open>NilDeref\<close>.
\<close>

subsection \<open>Errors\<close>

datatype error =
    Err string   \<comment> \<open>an \<^verbatim>\<open>error\<close> value handed back to the caller, with its message\<close>
  | NilDeref     \<comment> \<open>the panic of dereferencing a nil pointer\<close>

subsection \<open>The schema view: \<^verbatim>\<open>introspection.Type\<close> and \<^verbatim>\<open>introspection.Field\<close>\<close>

text \<open>
  The code reads a type through its methods \<^verbatim>\<open>Kind()\<close>, \<^verbatim>\<open>Name()\<close>, \<^verbatim>\<open>Description()\<close>,
  \<^verbatim>\<open>Fields()\<close>, \<^verbatim>\<open>PossibleTypes()\<close> and \<^verbatim>\<open>OfType()\<close>, and a field through \<^verbatim>\<open>Name()\<close>,
  \<^verbatim>\<open>Description()\<close> and \<^verbatim>\<open>Type()\<close>. A pointer result that may be nil is an option.
\<close>

datatype qlType =
  QLType (Kind: string) (Name: "string option") (Description: "string option")
         (Fields: "qlField list option") (PossibleTypes: "qlType list option")
         (OfType: "qlType option")
and qlField =
  QLField (FieldName: string) (FieldDescription: "string option") (FieldType: qlType)

subsection \<open>The scalar table\<close>

record typeConfig =
  ignore :: bool
  goType :: string
  importPath :: string

definition internalTypeConfig :: "string \<rightharpoonup> typeConfig" where
  "internalTypeConfig = map_of
     [(''SCALAR'',  \<lparr>ignore = True, goType = '''', importPath = ''''\<rparr>),
      (''Boolean'', \<lparr>ignore = True, goType = ''bool'', importPath = ''''\<rparr>),
      (''Float'',   \<lparr>ignore = True, goType = ''float64'', importPath = ''''\<rparr>),
      (''Int'',     \<lparr>ignore = True, goType = ''int32'', importPath = ''''\<rparr>),
      (''ID'',      \<lparr>ignore = True, goType = ''graphql.ID'',
                     importPath = ''graphql \"github.com/neelance/graphql-go\"''\<rparr>),
      (''String'',  \<lparr>ignore = True, goType = ''string'', importPath = ''''\<rparr>)]"

text \<open>\<^verbatim>\<open>internalTypeConfig[name].ignore\<close>: a missing key reads as the zero value, whose flag is false.\<close>

definition ignored :: "string \<Rightarrow> bool" where
  "ignored name = (case internalTypeConfig name of None \<Rightarrow> False | Some val \<Rightarrow> ignore val)"

subsection \<open>The configuration: \<^verbatim>\<open>config.Config\<close>\<close>

text \<open>
  Modelled from the spec: the declarations of \<^verbatim>\<open>config.Config\<close>, \<^verbatim>\<open>config.TypeConfig\<close> and the
  configuration of a field are in package \<^verbatim>\<open>config\<close>, outside this file. The records hold what
  the code reads, \<^verbatim>\<open>conf.Type[name]\<close>, \<^verbatim>\<open>typeConf.Template\<close>, \<^verbatim>\<open>typeConf.Field[name]\<close> and
  \<^verbatim>\<open>propConf.Template\<close>, with the types the code gives them: per entity, a mapping from the name
  of a template variant to its parameter bag and a mapping from the name of a field to the
  configuration of the field, which is again a mapping from variant names to parameter bags.
  A \<^verbatim>\<open>Template\<close> is a \<^verbatim>\<open>map[string]map[string]interface{}\<close>: it is kept as a list of its entries
  (distinct keys, in no particular order), because the code ranges over it; the maps that
  are only indexed are partial functions, and indexing at a missing key gives the zero value.
\<close>

datatype anyval = AString string | AInt int | ABool bool | AList "anyval list"

type_synonym paramBag = "(string \<times> anyval) list"
type_synonym templates = "(string \<times> paramBag) list"

record FieldConfig =
  FieldTemplates :: templates   \<comment> \<open>\<^verbatim>\<open>FieldConfig.Template\<close>\<close>

record TypeConfig =
  Template :: templates
  Field :: "string \<rightharpoonup> FieldConfig"

record Config =
  Type :: "string \<rightharpoonup> TypeConfig"

definition typeConfOf :: "Config \<Rightarrow> string \<Rightarrow> TypeConfig" where
  "typeConfOf conf name =
     (case Type conf name of None \<Rightarrow> \<lparr>Template = [], Field = Map.empty\<rparr> | Some tc \<Rightarrow> tc)"

definition propConfOf :: "TypeConfig \<Rightarrow> string \<Rightarrow> FieldConfig" where
  "propConfOf typeConf name =
     (case Field typeConf name of None \<Rightarrow> \<lparr>FieldTemplates = []\<rparr> | Some fc \<Rightarrow> fc)"

subsection \<open>\<^verbatim>\<open>getTypeName\<close>\<close>

lemma size_OfType: "OfType tp = Some t \<Longrightarrow> size t < size tp"
  by (cases tp) simp

text \<open>
  One pass of the code from the label \<^verbatim>\<open>check\<close> to the \<^verbatim>\<open>goto\<close> or the return; \<open>typ\<close> is
  the accumulator. Calling \<^verbatim>\<open>Kind()\<close> on a nil inner type and reading \<^verbatim>\<open>*name\<close> of a nil
  name panic.
\<close>

function getTypeNameFrom :: "qlType \<Rightarrow> Config \<Rightarrow> string \<Rightarrow> error + string" where
  "getTypeNameFrom tp conf typ =
     (case (if Kind tp = ''NON_NULL'' then (OfType tp, typ) else (Some tp, typ @ ''*'')) of
        (None, _) \<Rightarrow> Inl NilDeref
      | (Some tp1, typ1) \<Rightarrow>
          if Kind tp1 = ''LIST'' then
            (case OfType tp1 of
               None \<Rightarrow> Inl NilDeref
             | Some tp2 \<Rightarrow> getTypeNameFrom tp2 conf (typ1 @ ''[]''))
          else
            (case Name tp1 of
               None \<Rightarrow> Inl NilDeref
             | Some name \<Rightarrow>
                 (case internalTypeConfig name of
                    Some val \<Rightarrow> Inr (typ1 @ goType val)
                  | None \<Rightarrow> Inr (typ1 @ name @ ''Resolver''))))"
  by pat_completeness auto
termination
  apply (relation "measure (\<lambda>(tp, conf, typ). size tp)")
   apply simp
  apply (auto split: if_splits dest!: size_OfType size_OfType [OF sym])
  done

declare getTypeNameFrom.simps [simp del]

definition getTypeName :: "qlType \<Rightarrow> Config \<Rightarrow> error + string" where
  "getTypeName tp conf = getTypeNameFrom tp conf ''''"

subsection \<open>\<^verbatim>\<open>getImports\<close>\<close>

function getImports :: "qlType \<Rightarrow> Config \<Rightarrow> string list" where
  "getImports tp conf =
     (case (case Name tp of None \<Rightarrow> None | Some name \<Rightarrow> internalTypeConfig name) of
        Some val \<Rightarrow> [importPath val]
      | None \<Rightarrow>
          (case OfType tp of
             Some inner \<Rightarrow> getImports inner conf
           | None \<Rightarrow> []))"
  by pat_completeness auto
termination
  by (relation "measure (\<lambda>(tp, conf). size tp)") (auto dest: size_OfType)

declare getImports.simps [simp del]

subsection \<open>\<^verbatim>\<open>removeDuplicates\<close>\<close>

fun removeDuplicatesLoop ::
  "string list \<Rightarrow> string list \<Rightarrow> (string \<rightharpoonup> string) \<Rightarrow> string list" where
  "removeDuplicatesLoop [] result seen = result"
| "removeDuplicatesLoop (val # a) result seen =
     (if seen val = None
      then removeDuplicatesLoop a (result @ [val]) (seen(val \<mapsto> val))
      else removeDuplicatesLoop a result seen)"

definition removeDuplicates :: "string list \<Rightarrow> string list" where
  "removeDuplicates a = removeDuplicatesLoop a [] Map.empty"

subsection \<open>String helpers of the Go library\<close>

text \<open>\<^verbatim>\<open>strings.HasPrefix\<close> and \<^verbatim>\<open>strings.Trim\<close>, on strings as sequences of bytes.\<close>

definition hasPrefix :: "string \<Rightarrow> string \<Rightarrow> bool" where
  "hasPrefix s p = (take (length p) s = p)"

definition trim :: "string \<Rightarrow> string \<Rightarrow> string" where
  "trim s cutset =
     rev (dropWhile (\<lambda>c. c \<in> set cutset) (rev (dropWhile (\<lambda>c. c \<in> set cutset) s)))"

definition spaceTab :: string where
  "spaceTab = [CHR '' '', CHR 0x09]"

subsection \<open>The collaborators and the run-time system\<close>

text \<open>
  What a template receives: the \<^verbatim>\<open>map[string]interface{}\<close> literal of each \<^verbatim>\<open>Execute\<close> call.
\<close>

datatype ctxVal =
    CString string
  | CStringPtr "string option"
  | CStrings "string list"
  | CConfig Config
  | CBag paramBag

type_synonym templateData = "(string \<times> ctxVal) list"

record typeTemplate =
  TypeTemplate :: string

record propertyTemplate =
  FieldTemplate :: string
  MethodTemplate :: string

text \<open>
  The code outside this file that \<^verbatim>\<open>Generate\<close> calls is a parameter of the model:
  \<^item> \<open>parseSchema\<close>: \<^verbatim>\<open>graphql.ParseSchema\<close> followed by \<^verbatim>\<open>Inspect().Types()\<close>;
  \<^item> \<open>GetTypeTemplate\<close>, \<open>GetPropertyTemplate\<close>: the lookups of package \<^verbatim>\<open>template\<close>, which
    receive the name of the variant;
  \<^item> \<open>templateParse name text\<close>: \<^verbatim>\<open>template.New(name).Funcs(templateFunMap).Parse(text)\<close>, with
    the fixed function map of lines 56-59;
  \<^item> \<open>templateExecute tmpl data\<close>: \<^verbatim>\<open>tmpl.Execute(buf, data)\<close>, as the text it writes to the
    buffer (all of it, or what was written before the failure) and the error it returns;
  \<^item> \<open>FormatCode\<close>: the formatter, which returns the formatted bytes and an error;
    \<^verbatim>\<open>generateType\<close> hands both on and \<^verbatim>\<open>Generate\<close> drops the bytes when the error is set, so
    the result is a sum;
  \<^item> \<open>ToLower\<close>: \<^verbatim>\<open>strings.ToLower\<close> of the Go library, which maps every Unicode upper-case
    letter of a string to its lower case;
  \<^item> \<open>rangeOrder\<close>: the order in which one execution of a \<^verbatim>\<open>range\<close> statement visits the
    entries of a map. Go leaves it unspecified and it may change from one execution to the
    next, so it depends on the place of the execution in the run (the indices of the
    enclosing loops) as well as on the map.
\<close>

record 't runtime =
  parseSchema :: "string \<Rightarrow> error + qlType list"
  GetTypeTemplate :: "string \<Rightarrow> error + typeTemplate"
  GetPropertyTemplate :: "string \<Rightarrow> error + propertyTemplate"
  templateParse :: "string \<Rightarrow> string \<Rightarrow> error + 't"
  templateExecute :: "'t \<Rightarrow> templateData \<Rightarrow> string \<times> error option"
  FormatCode :: "string \<Rightarrow> error + string"
  ToLower :: "string \<Rightarrow> string"
  rangeOrder :: "nat list \<Rightarrow> templates \<Rightarrow> templates"

text \<open>A \<^verbatim>\<open>range\<close> visits every entry of the map once.\<close>

definition validOrder :: "'t runtime \<Rightarrow> bool" where
  "validOrder rt = (\<forall>site xs. mset (rangeOrder rt site xs) = mset xs)"

text \<open>The normalisation of an empty \<^verbatim>\<open>Template\<close> map, lines 116-119 and 180-183.\<close>

definition withDefault :: "templates \<Rightarrow> templates" where
  "withDefault ts = (if length ts = 0 then [(''default'', [])] else ts)"

subsection \<open>\<^verbatim>\<open>generateField\<close>\<close>

definition fieldContext ::
  "qlType \<Rightarrow> qlField \<Rightarrow> string \<Rightarrow> Config \<Rightarrow> paramBag \<Rightarrow> templateData" where
  "fieldContext tp fp fieldTypeName conf templateConfig =
     [(''TypeKind'', CString (Kind tp)),
      (''FieldName'', CString (FieldName fp)),
      (''FieldDescription'', CStringPtr (FieldDescription fp)),
      (''FieldType'', CString fieldTypeName),
      (''Config'', CConfig conf),
      (''TemplateConfig'', CBag templateConfig)]"

definition methodContext ::
  "qlType \<Rightarrow> string \<Rightarrow> qlField \<Rightarrow> string \<Rightarrow> Config \<Rightarrow> paramBag \<Rightarrow> templateData" where
  "methodContext tp typeName fp fieldTypeName conf templateConfig =
     [(''TypeKind'', CString (Kind tp)),
      (''TypeName'', CString typeName),
      (''MethodName'', CString (FieldName fp)),
      (''MethodReturnType'', CString fieldTypeName),
      (''MethodReturn'', CString (FieldName fp)),
      (''Config'', CConfig conf),
      (''TemplateConfig'', CBag templateConfig)]"

text \<open>The loop of lines 185-223 over the variants in the order of the visit; the two buffers and
  \<open>imports\<close> are the state.\<close>

fun fieldTemplatesLoop ::
  "'t runtime \<Rightarrow> qlField \<Rightarrow> qlType \<Rightarrow> string \<Rightarrow> Config \<Rightarrow> templates \<Rightarrow>
   string \<Rightarrow> string \<Rightarrow> string list \<Rightarrow> error + (string \<times> string \<times> string list)" where
  "fieldTemplatesLoop rt fp tp typeName conf [] fieldCode methodCode imports =
     Inr (fieldCode, methodCode, imports)"
| "fieldTemplatesLoop rt fp tp typeName conf ((templateName, templateConfig) # rest)
     fieldCode methodCode imports =
     (case GetPropertyTemplate rt templateName of
        Inl err \<Rightarrow> Inl err
      | Inr propTemplate \<Rightarrow>
     (case templateParse rt templateName (trim (FieldTemplate propTemplate) spaceTab) of
        Inl err \<Rightarrow> Inl err
      | Inr tmpl \<Rightarrow>
     (case getTypeName (FieldType fp) conf of
        Inl err \<Rightarrow> Inl err
      | Inr fieldTypeName \<Rightarrow>
     (let fieldCode' = fieldCode @
            fst (templateExecute rt tmpl (fieldContext tp fp fieldTypeName conf templateConfig))
      in
     (case templateParse rt templateName (MethodTemplate propTemplate) of
        Inl err \<Rightarrow> Inl err
      | Inr tmpl' \<Rightarrow>
     (let methodCode' = methodCode @
            fst (templateExecute rt tmpl'
                   (methodContext tp typeName fp fieldTypeName conf templateConfig))
      in fieldTemplatesLoop rt fp tp typeName conf rest fieldCode' methodCode'
           (imports @ getImports (FieldType fp) conf)))))))"

definition generateField ::
  "'t runtime \<Rightarrow> nat list \<Rightarrow> qlField \<Rightarrow> qlType \<Rightarrow> TypeConfig \<Rightarrow> Config \<Rightarrow>
   error + (string \<times> string \<times> string list)" where
  "generateField rt site fp tp typeConf conf =
     (case Name tp of
        None \<Rightarrow> Inl NilDeref
      | Some typeName \<Rightarrow>
          fieldTemplatesLoop rt fp tp typeName conf
            (rangeOrder rt site (withDefault (FieldTemplates (propConfOf typeConf (FieldName fp)))))
            [] [] [])"

subsection \<open>\<^verbatim>\<open>generateType\<close>\<close>

text \<open>The loop of lines 137-146; \<open>i\<close> is the index of the field. The slices \<^verbatim>\<open>fields\<close> and
  \<^verbatim>\<open>methods\<close> are allocated at full length and filled by index, in the order of the fields:
  here they grow by one element for every field.\<close>

fun fieldsLoop ::
  "'t runtime \<Rightarrow> nat list \<Rightarrow> nat \<Rightarrow> qlField list \<Rightarrow> qlType \<Rightarrow> TypeConfig \<Rightarrow> Config \<Rightarrow>
   string list \<Rightarrow> string list \<Rightarrow> string list \<Rightarrow>
   error + (string list \<times> string list \<times> string list)" where
  "fieldsLoop rt site i [] tp typeConf conf fieldCodes methodCodes imports =
     Inr (fieldCodes, methodCodes, imports)"
| "fieldsLoop rt site i (fp # ifields) tp typeConf conf fieldCodes methodCodes imports =
     (case generateField rt (site @ [i]) fp tp typeConf conf of
        Inl err \<Rightarrow> Inl err
      | Inr (fieldCode, methodCode, fieldImports) \<Rightarrow>
          fieldsLoop rt site (Suc i) ifields tp typeConf conf
            (fieldCodes @ [fieldCode]) (methodCodes @ [methodCode]) (imports @ fieldImports))"

text \<open>The loop of lines 150-154.\<close>

fun possibleTypesLoop :: "qlType list \<Rightarrow> string list \<Rightarrow> error + string list" where
  "possibleTypesLoop [] possibleTypes = Inr possibleTypes"
| "possibleTypesLoop (tp # tps) possibleTypes =
     (case Name tp of
        None \<Rightarrow> Inl NilDeref
      | Some name \<Rightarrow> possibleTypesLoop tps (possibleTypes @ [name]))"

definition returnString :: "string option \<Rightarrow> string" where
  "returnString strPtr = (case strPtr of Some s \<Rightarrow> s | None \<Rightarrow> [])"

definition typeContext ::
  "qlType \<Rightarrow> string \<Rightarrow> string list \<Rightarrow> Config \<Rightarrow> string list \<Rightarrow> string list \<Rightarrow>
   string list \<Rightarrow> templateData" where
  "typeContext tp name possibleTypes conf fieldCodes methodCodes imports =
     [(''Kind'', CString (Kind tp)),
      (''PossibleTypes'', CStrings possibleTypes),
      (''TypeName'', CString name),
      (''TypeDescription'', CString (returnString (Description tp))),
      (''Config'', CConfig conf),
      (''Fields'', CStrings fieldCodes),
      (''Methods'', CStrings methodCodes),
      (''Imports'', CStrings (removeDuplicates imports))]"

text \<open>The loop of lines 121-166 over the variants in the order of the visit; \<open>j\<close> counts the
  iterations and \<open>buf\<close> is the buffer.\<close>

fun typeTemplatesLoop ::
  "'t runtime \<Rightarrow> nat list \<Rightarrow> nat \<Rightarrow> qlType \<Rightarrow> string \<Rightarrow> TypeConfig \<Rightarrow> Config \<Rightarrow>
   templates \<Rightarrow> string \<Rightarrow> error + string" where
  "typeTemplatesLoop rt site j tp name typeConf conf [] buf = Inr buf"
| "typeTemplatesLoop rt site j tp name typeConf conf ((templateName, templateConfig) # rest) buf =
     (case GetTypeTemplate rt templateName of
        Inl err \<Rightarrow> Inl err
      | Inr typeTemplate \<Rightarrow>
     (case templateParse rt templateName (trim (TypeTemplate typeTemplate) spaceTab) of
        Inl err \<Rightarrow> Inl err
      | Inr tmpl \<Rightarrow>
     (case Fields tp of
        None \<Rightarrow> Inl NilDeref
      | Some ifields \<Rightarrow>
     (case fieldsLoop rt (site @ [j]) 0 ifields tp typeConf conf [] [] [] of
        Inl err \<Rightarrow> Inl err
      | Inr (fieldCodes, methodCodes, imports) \<Rightarrow>
     (case (case PossibleTypes tp of
              None \<Rightarrow> Inr []
            | Some tps \<Rightarrow> possibleTypesLoop tps []) of
        Inl err \<Rightarrow> Inl err
      | Inr possibleTypes \<Rightarrow>
          typeTemplatesLoop rt site (Suc j) tp name typeConf conf rest
            (buf @ fst (templateExecute rt tmpl
                          (typeContext tp name possibleTypes conf fieldCodes methodCodes imports))))))))"

definition generateType :: "'t runtime \<Rightarrow> nat list \<Rightarrow> qlType \<Rightarrow> Config \<Rightarrow> error + string" where
  "generateType rt site tp conf =
     (case Name tp of
        None \<Rightarrow> Inl NilDeref
      | Some name \<Rightarrow>
          (let typeConf = typeConfOf conf name;
               typeConf' = typeConf\<lparr>Template := withDefault (Template typeConf)\<rparr>
           in case typeTemplatesLoop rt site 0 tp name typeConf' conf
                     (rangeOrder rt site (Template typeConf')) [] of
                Inl err \<Rightarrow> Inl err
              | Inr buf \<Rightarrow> FormatCode rt buf))"

subsection \<open>\<^verbatim>\<open>Generate\<close>\<close>

text \<open>The file name of line 82, \<^verbatim>\<open>fmt.Sprintf("%s_gen.go", strings.ToLower(name))\<close>.\<close>

definition fileNameOf :: "'t runtime \<Rightarrow> string \<Rightarrow> string" where
  "fileNameOf rt name = ToLower rt name @ ''_gen.go''"

definition unsupportedKinds :: "string list" where
  "unsupportedKinds = [''ENUM'', ''INPUT_OBJECT'', ''UNION'']"

text \<open>The loop of lines 72-98; \<open>i\<close> is the index of the type in the catalogue. The calls of
  \<^verbatim>\<open>log.Printf\<close> write to the standard logger and leave the result alone.\<close>

fun typesLoop ::
  "'t runtime \<Rightarrow> Config \<Rightarrow> nat \<Rightarrow> qlType list \<Rightarrow> (string \<rightharpoonup> string) \<Rightarrow>
   error + (string \<rightharpoonup> string)" where
  "typesLoop rt conf i [] results = Inr results"
| "typesLoop rt conf i (qlType # types) results =
     (case Name qlType of
        None \<Rightarrow> Inl NilDeref
      | Some name \<Rightarrow>
          if hasPrefix name ''_'' then typesLoop rt conf (Suc i) types results
          else if ignored name then typesLoop rt conf (Suc i) types results
          else
            (let fileName = fileNameOf rt name in
             case (if Kind qlType \<in> set unsupportedKinds then Inr []
                   else generateType rt [i] qlType conf) of
               Inl err \<Rightarrow> Inl err
             | Inr code \<Rightarrow> typesLoop rt conf (Suc i) types (results(fileName \<mapsto> code))))"

definition Generate :: "'t runtime \<Rightarrow> string \<Rightarrow> Config \<Rightarrow> error + (string \<rightharpoonup> string)" where
  "Generate rt graphSchema conf =
     (case parseSchema rt graphSchema of
        Inl err \<Rightarrow> Inl err
      | Inr types \<Rightarrow> typesLoop rt conf 0 types Map.empty)"

section \<open>Predicates of the properties\<close>

subsection \<open>Wrapper chains\<close>

text \<open>
  \<open>chainInvariant\<close> is the invariant of the data model: a wrapper has an inner type, and the
  chain ends in a type with a name. \<open>wellFormedChain\<close> adds what the grammar of GraphQL
  gives: the inner type of a \<^verbatim>\<open>NON_NULL\<close> is not itself a \<^verbatim>\<open>NON_NULL\<close>.
  \<open>unnamedTerminal\<close> is a chain of the same shape whose last type has no name.
\<close>

definition wrapperKinds :: "string list" where
  "wrapperKinds = [''LIST'', ''NON_NULL'']"
function chainInvariant :: "qlType \<Rightarrow> bool" where
  "chainInvariant tp =
     (if Kind tp \<in> set wrapperKinds
      then (case OfType tp of None \<Rightarrow> False | Some inner \<Rightarrow> chainInvariant inner)
      else Name tp \<noteq> None)"
  by pat_completeness auto
termination
  by (relation "measure size") (auto dest: size_OfType)
function wellFormedChain :: "qlType \<Rightarrow> bool" where
  "wellFormedChain tp =
     (if Kind tp \<in> set wrapperKinds
      then (case OfType tp of
              None \<Rightarrow> False
            | Some inner \<Rightarrow>
                \<not> (Kind tp = ''NON_NULL'' \<and> Kind inner = ''NON_NULL'') \<and> wellFormedChain inner)
      else Name tp \<noteq> None)"
  by pat_completeness auto
termination
  by (relation "measure size") (auto dest: size_OfType)
function unnamedTerminal :: "qlType \<Rightarrow> bool" where
  "unnamedTerminal tp =
     (if Kind tp \<in> set wrapperKinds
      then (case OfType tp of
              None \<Rightarrow> False
            | Some inner \<Rightarrow>
                \<not> (Kind tp = ''NON_NULL'' \<and> Kind inner = ''NON_NULL'') \<and> unnamedTerminal inner)
      else Name tp = None)"
  by pat_completeness auto
termination
  by (relation "measure size") (auto dest: size_OfType)
declare chainInvariant.simps [simp del] wellFormedChain.simps [simp del]
  unnamedTerminal.simps [simp del]
subsection \<open>Lists without repetition\<close>

subsection \<open>Runs\<close>

text \<open>
  \<open>withExecuteErrors errs rt\<close> is the run-time system \<open>rt\<close> whose template executions write
  the same text and return the errors \<open>errs\<close>. \<open>plainOrder rt\<close> is \<open>rt\<close> with every \<^verbatim>\<open>range\<close>
  visiting a map in the order of its list, \<open>reverseOrder rt\<close> in the reverse order.
\<close>

definition withExecuteErrors ::
  "('t \<Rightarrow> templateData \<Rightarrow> error option) \<Rightarrow> 't runtime \<Rightarrow> 't runtime" where
  "withExecuteErrors errs rt =
     rt\<lparr>templateExecute := \<lambda>tmpl data. (fst (templateExecute rt tmpl data), errs tmpl data)\<rparr>"
definition plainOrder :: "'t runtime \<Rightarrow> 't runtime" where
  "plainOrder rt = rt\<lparr>rangeOrder := \<lambda>site xs. xs\<rparr>"
definition reverseOrder :: "'t runtime \<Rightarrow> 't runtime" where
  "reverseOrder rt = rt\<lparr>rangeOrder := \<lambda>site xs. rev xs\<rparr>"
text \<open>A configuration with at most one template variant for every entity and every field.\<close>

definition singleFieldVariants :: "TypeConfig \<Rightarrow> bool" where
  "singleFieldVariants typeConf =
     (\<forall>f fc. Field typeConf f = Some fc \<longrightarrow> length (FieldTemplates fc) \<le> 1)"
definition singleVariants :: "Config \<Rightarrow> bool" where
  "singleVariants conf =
     (\<forall>name tc. Type conf name = Some tc \<longrightarrow>
        length (Template tc) \<le> 1 \<and> singleFieldVariants tc)"
text \<open>The errors that the collaborators of a run-time system can return.\<close>

definition collaboratorErrors :: "'t runtime \<Rightarrow> error set" where
  "collaboratorErrors rt =
     {err. (\<exists>s. parseSchema rt s = Inl err) \<or> (\<exists>v. GetTypeTemplate rt v = Inl err) \<or>
           (\<exists>v. GetPropertyTemplate rt v = Inl err) \<or>
           (\<exists>name text. templateParse rt name text = Inl err) \<or>
           (\<exists>code. FormatCode rt code = Inl err)}"
text \<open>
  An entity that \<^verbatim>\<open>Generate\<close> renders: it passes the two \<^verbatim>\<open>continue\<close> tests and the \<^verbatim>\<open>switch\<close> sends
  it to \<^verbatim>\<open>generateType\<close>. \<open>typeVariantUnknown\<close>: the lookup fails for a variant of the entity
  (after the normalisation of an empty map); \<open>fieldVariantUnknown\<close>: it fails for a variant
  of one of its fields.
\<close>

definition processed :: "qlType \<Rightarrow> bool" where
  "processed tp =
     (case Name tp of
        None \<Rightarrow> False
      | Some name \<Rightarrow>
          \<not> hasPrefix name ''_'' \<and> \<not> ignored name \<and> Kind tp \<notin> set unsupportedKinds)"
definition typeVariantUnknown :: "'t runtime \<Rightarrow> Config \<Rightarrow> qlType \<Rightarrow> bool" where
  "typeVariantUnknown rt conf tp =
     (case Name tp of
        None \<Rightarrow> False
      | Some name \<Rightarrow>
          list_ex (\<lambda>(v, bag). isl (GetTypeTemplate rt v))
            (withDefault (Template (typeConfOf conf name))))"
definition fieldVariantUnknown :: "'t runtime \<Rightarrow> Config \<Rightarrow> qlType \<Rightarrow> bool" where
  "fieldVariantUnknown rt conf tp =
     (case (Name tp, Fields tp) of
        (Some name, Some ifields) \<Rightarrow>
          list_ex (\<lambda>fp. list_ex (\<lambda>(v, bag). isl (GetPropertyTemplate rt v))
                     (withDefault (FieldTemplates (propConfOf (typeConfOf conf name) (FieldName fp)))))
            ifields
      | _ \<Rightarrow> False)"
text \<open>
  A catalogue on which the code dereferences no nil: every entry has a name, and every
  entity that is rendered has a list of fields whose types are well-formed chains and
  possible types with names.
\<close>

definition renderable :: "qlType \<Rightarrow> bool" where
  "renderable tp =
     ((case Fields tp of
         None \<Rightarrow> False
       | Some ifields \<Rightarrow> list_all (\<lambda>fp. wellFormedChain (FieldType fp)) ifields) \<and>
      (case PossibleTypes tp of
         None \<Rightarrow> True
       | Some tps \<Rightarrow> list_all (\<lambda>t. Name t \<noteq> None) tps))"

definition panicFree :: "qlType list \<Rightarrow> bool" where
  "panicFree types =
     list_all (\<lambda>tp. Name tp \<noteq> None \<and> (\<not> processed tp \<or> renderable tp)) types"

text \<open>The file names of the entities of a catalogue.\<close>

definition catalogueFileNames :: "'t runtime \<Rightarrow> qlType list \<Rightarrow> string list" where
  "catalogueFileNames rt types = map (fileNameOf rt) (List.map_filter Name types)"
section \<open>Example schemas, configurations and collaborators\<close>

text \<open>A named type and the two wrappers, as the schema view presents them: a wrapper has no
  name, a named type has no inner type.\<close>

definition namedType :: "string \<Rightarrow> string \<Rightarrow> qlType" where
  "namedType k n = QLType k (Some n) None None None None"
definition listOf :: "qlType \<Rightarrow> qlType" where
  "listOf t = QLType ''LIST'' None None None None (Some t)"
definition nonNull :: "qlType \<Rightarrow> qlType" where
  "nonNull t = QLType ''NON_NULL'' None None None None (Some t)"
definition objectType :: "string \<Rightarrow> qlField list \<Rightarrow> qlType" where
  "objectType n fs = QLType ''OBJECT'' (Some n) None (Some fs) None None"
definition StringT :: qlType where
  "StringT = namedType ''SCALAR'' ''String''"
definition IDT :: qlType where
  "IDT = namedType ''SCALAR'' ''ID''"
definition StatusT :: qlType where
  "StatusT = QLType ''ENUM'' (Some ''Status'') None None None None"
definition SchemaMetaT :: qlType where
  "SchemaMetaT = QLType ''OBJECT'' (Some ''__Schema'') None (Some []) None None"
definition idAndTags :: "qlField list" where
  "idAndTags = [QLField ''id'' None (nonNull IDT), QLField ''tags'' None (listOf (nonNull StringT))]"
definition graphqlImport :: string where
  "graphqlImport = ''graphql \"github.com/neelance/graphql-go\"''"
text \<open>Catalogues, and the schema texts they stand for.\<close>

definition postCatalogue :: "qlType list" where
  "postCatalogue = [objectType ''Post'' idAndTags]"
definition statusText :: string where
  "statusText = ''type Post { id: ID! tags: [String!] } enum Status { ACTIVE }''"
definition statusCatalogue :: "qlType list" where
  "statusCatalogue = [objectType ''Post'' idAndTags, StatusT, StringT, SchemaMetaT]"
definition alphaText :: string where
  "alphaText = ''type Alpha { id: ID! tags: [String!] }''"
definition betaText :: string where
  "betaText = ''type Beta { id: ID! tags: [String!] }''"
definition alphaBetaText :: string where
  "alphaBetaText = alphaText @ '' '' @ betaText"
definition alphaBeta :: "string \<Rightarrow> error + qlType list" where
  "alphaBeta s =
     (if s = alphaText then Inr [objectType ''Alpha'' idAndTags]
      else if s = betaText then Inr [objectType ''Beta'' idAndTags]
      else if s = alphaBetaText
        then Inr [objectType ''Alpha'' idAndTags, objectType ''Beta'' idAndTags]
      else Inl (Err ''syntax error''))"
text \<open>Configurations.\<close>

definition noConfig :: Config where
  "noConfig = \<lparr>Type = Map.empty\<rparr>"
definition twoVariants :: Config where
  "twoVariants =
     \<lparr>Type = [''Post'' \<mapsto> \<lparr>Template = [(''a'', []), (''b'', [])], Field = Map.empty\<rparr>]\<rparr>"
definition oneVariant :: Config where
  "oneVariant =
     \<lparr>Type = [''Post'' \<mapsto>
        \<lparr>Template = [(''a'', [])],
         Field = [''id'' \<mapsto> \<lparr>FieldTemplates = [(''b'', [(''tag'', AString ''json'')])]\<rparr>]\<rparr>]\<rparr>"
definition unknownBoth :: Config where
  "unknownBoth =
     \<lparr>Type = [''Alpha'' \<mapsto> \<lparr>Template = [(''nope'', [])], Field = Map.empty\<rparr>,
              ''Beta'' \<mapsto> \<lparr>Template = [(''nope'', [])], Field = Map.empty\<rparr>]\<rparr>"
definition unknownBeta :: Config where
  "unknownBeta =
     \<lparr>Type = [''Beta'' \<mapsto> \<lparr>Template = [(''nope'', [])], Field = Map.empty\<rparr>]\<rparr>"
definition unknownForId :: Config where
  "unknownForId =
     \<lparr>Type = [''Alpha'' \<mapsto>
        \<lparr>Template = [], Field = [''id'' \<mapsto> \<lparr>FieldTemplates = [(''nope'', [])]\<rparr>]\<rparr>]\<rparr>"
definition unknownForTags :: Config where
  "unknownForTags =
     \<lparr>Type = [''Alpha'' \<mapsto>
        \<lparr>Template = [], Field = [''tags'' \<mapsto> \<lparr>FieldTemplates = [(''nope'', [])]\<rparr>]\<rparr>]\<rparr>"
text \<open>
  \<open>asciiLower\<close> is \<^verbatim>\<open>strings.ToLower\<close> on strings of ASCII characters, where it changes the letters
  \<^verbatim>\<open>A\<close> to \<^verbatim>\<open>Z\<close> only; the names of the examples are such strings.
\<close>

definition asciiLowerChar :: "char \<Rightarrow> char" where
  "asciiLowerChar c =
     (case map_of (zip ''ABCDEFGHIJKLMNOPQRSTUVWXYZ'' ''abcdefghijklmnopqrstuvwxyz'') c of
        Some l \<Rightarrow> l
      | None \<Rightarrow> c)"

definition asciiLower :: "string \<Rightarrow> string" where
  "asciiLower s = map asciiLowerChar s"

definition unknownStatus :: Config where
  "unknownStatus =
     \<lparr>Type = [''Status'' \<mapsto> \<lparr>Template = [(''nope'', [])], Field = Map.empty\<rparr>]\<rparr>"

text \<open>
  \<open>plainRuntime\<close> knows the template variants \<^verbatim>\<open>default\<close>, \<^verbatim>\<open>a\<close> and \<^verbatim>\<open>b\<close>; its templates have
  no actions, so executing one writes its text; its formatter returns the text unchanged, its
  lower-casing is \<open>asciiLower\<close> and its \<^verbatim>\<open>range\<close> visits a map in the order of the list. Every template execution of
  \<open>failingExecute\<close> returns an error.
\<close>

definition knownTemplates :: "string list" where
  "knownTemplates = [''default'', ''a'', ''b'']"
definition plainRuntime :: "(string \<Rightarrow> error + qlType list) \<Rightarrow> string runtime" where
  "plainRuntime parse =
     \<lparr>parseSchema = parse,
      GetTypeTemplate = (\<lambda>v. if v \<in> set knownTemplates
         then Inr \<lparr>TypeTemplate = ''type '' @ v @ ''; ''\<rparr>
         else Inl (Err (''unknown type template '' @ v))),
      GetPropertyTemplate = (\<lambda>v. if v \<in> set knownTemplates
         then Inr \<lparr>FieldTemplate = ''field '' @ v @ ''; '', MethodTemplate = ''method '' @ v @ ''; ''\<rparr>
         else Inl (Err (''unknown property template '' @ v))),
      templateParse = (\<lambda>name text. Inr text),
      templateExecute = (\<lambda>tmpl data. (tmpl, None)),
      FormatCode = (\<lambda>code. Inr code),
      ToLower = asciiLower,
      rangeOrder = (\<lambda>site xs. xs)\<rparr>"


definition failingExecute :: "string runtime" where
  "failingExecute =
     withExecuteErrors (\<lambda>tmpl data. Some (Err ''execute failed''))
       (plainRuntime (\<lambda>s. Inr postCatalogue))"

section \<open>Properties\<close>

subsection \<open>\<^verbatim>\<open>getTypeName\<close>\<close>

lemma getTypeNameFrom_listOf:
  "getTypeNameFrom (listOf t) conf acc = getTypeNameFrom t conf (acc @ ''*[]'')"
  by (subst getTypeNameFrom.simps) (simp add: listOf_def)

lemma getTypeNameFrom_nonNull_listOf:
  "getTypeNameFrom (nonNull (listOf t)) conf acc = getTypeNameFrom t conf (acc @ ''[]'')"
  by (subst getTypeNameFrom.simps) (simp add: listOf_def nonNull_def)

lemma getTypeNameFrom_String:
  "getTypeNameFrom StringT conf acc = Inr (acc @ ''*string'')"
  by (subst getTypeNameFrom.simps) (simp add: StringT_def namedType_def internalTypeConfig_def)

lemma getTypeNameFrom_nonNull_String:
  "getTypeNameFrom (nonNull StringT) conf acc = Inr (acc @ ''string'')"
  by (subst getTypeNameFrom.simps)
    (simp add: StringT_def namedType_def nonNull_def internalTypeConfig_def)

text \<open>
  C2. The markers are appended layer by layer from the outside in, and the \<^verbatim>\<open>NON_NULL\<close> test is
  made again after every \<^verbatim>\<open>LIST\<close> is peeled: a list met under a \<^verbatim>\<open>NON_NULL\<close> adds \<^verbatim>\<open>[]\<close>, a
  list met bare adds \<^verbatim>\<open>*[]\<close>, and the rest of the chain is resolved after the marker. For
  \<^verbatim>\<open>String\<close>, "non-null list of non-null String" is \<^verbatim>\<open>[]string\<close>, "list of non-null String"
  is \<^verbatim>\<open>*[]string\<close> and "non-null list of String" is \<^verbatim>\<open>[]*string\<close>, three different texts.
\<close>

theorem getTypeName_order_sensitive:
  "getTypeName (nonNull (listOf (nonNull StringT))) conf = Inr ''[]string'' \<and>
   getTypeName (listOf (nonNull StringT)) conf = Inr ''*[]string'' \<and>
   getTypeName (nonNull (listOf StringT)) conf = Inr ''[]*string'' \<and>
   distinct [''[]string'', ''*[]string'', ''[]*string''] \<and>
   getTypeNameFrom (listOf t) conf acc = getTypeNameFrom t conf (acc @ ''*[]'') \<and>
   getTypeNameFrom (nonNull (listOf t)) conf acc = getTypeNameFrom t conf (acc @ ''[]'')"
  by (simp add: getTypeName_def getTypeNameFrom_listOf getTypeNameFrom_nonNull_listOf
      getTypeNameFrom_String getTypeNameFrom_nonNull_String)

lemma getTypeNameFrom_wellFormed:
  "wellFormedChain tp \<Longrightarrow> \<exists>s. getTypeNameFrom tp conf acc = Inr s"
proof (induction tp arbitrary: acc rule: measure_induct_rule [where f = size])
  case (less tp)
  show ?case
  proof (cases "Kind tp = ''NON_NULL''")
    case True
    with less.prems obtain t1 where t1: "OfType tp = Some t1" "Kind t1 \<noteq> ''NON_NULL''"
        "wellFormedChain t1"
      by (auto simp: wellFormedChain.simps [of tp] wrapperKinds_def split: option.splits)
    show ?thesis
    proof (cases "Kind t1 = ''LIST''")
      case LIST: True
      with t1 obtain t2 where t2: "OfType t1 = Some t2" "wellFormedChain t2"
        by (auto simp: wellFormedChain.simps [of t1] wrapperKinds_def split: option.splits)
      have "size t2 < size tp"
        using size_OfType [OF t1(1)] size_OfType [OF t2(1)] by simp
      then obtain s where "getTypeNameFrom t2 conf (acc @ ''[]'') = Inr s"
        using less.IH [of t2 "acc @ ''[]''"] t2(2) by blast
      then show ?thesis
        using True t1 LIST t2 by (subst getTypeNameFrom.simps) simp
    next
      case False
      with t1 obtain name where "Name t1 = Some name"
        by (auto simp: wellFormedChain.simps [of t1] wrapperKinds_def)
      then show ?thesis
        using True t1 False by (subst getTypeNameFrom.simps) (simp split: option.splits)
    qed
  next
    case notNN: False
    show ?thesis
    proof (cases "Kind tp = ''LIST''")
      case True
      with less.prems obtain t2 where t2: "OfType tp = Some t2" "wellFormedChain t2"
        by (auto simp: wellFormedChain.simps [of tp] wrapperKinds_def split: option.splits)
      obtain s where "getTypeNameFrom t2 conf ((acc @ ''*'') @ ''[]'') = Inr s"
        using less.IH [of t2 "(acc @ ''*'') @ ''[]''"] t2 size_OfType [OF t2(1)] by blast
      then show ?thesis
        using True t2 by (subst getTypeNameFrom.simps) simp
    next
      case False
      with notNN less.prems obtain name where "Name tp = Some name"
        by (auto simp: wellFormedChain.simps [of tp] wrapperKinds_def)
      then show ?thesis
        using notNN False by (subst getTypeNameFrom.simps) (simp split: option.splits)
    qed
  qed
qed

lemma getTypeNameFrom_unnamedTerminal:
  "unnamedTerminal tp \<Longrightarrow> getTypeNameFrom tp conf acc = Inl NilDeref"
proof (induction tp arbitrary: acc rule: measure_induct_rule [where f = size])
  case (less tp)
  show ?case
  proof (cases "Kind tp = ''NON_NULL''")
    case True
    with less.prems obtain t1 where t1: "OfType tp = Some t1" "Kind t1 \<noteq> ''NON_NULL''"
        "unnamedTerminal t1"
      by (auto simp: unnamedTerminal.simps [of tp] wrapperKinds_def split: option.splits)
    show ?thesis
    proof (cases "Kind t1 = ''LIST''")
      case LIST: True
      with t1 obtain t2 where t2: "OfType t1 = Some t2" "unnamedTerminal t2"
        by (auto simp: unnamedTerminal.simps [of t1] wrapperKinds_def split: option.splits)
      have "size t2 < size tp"
        using size_OfType [OF t1(1)] size_OfType [OF t2(1)] by simp
      then have "getTypeNameFrom t2 conf (acc @ ''[]'') = Inl NilDeref"
        using less.IH [of t2 "acc @ ''[]''"] t2(2) by blast
      then show ?thesis
        using True t1 LIST t2 by (subst getTypeNameFrom.simps) simp
    next
      case False
      with t1 have "Name t1 = None"
        by (auto simp: unnamedTerminal.simps [of t1] wrapperKinds_def)
      then show ?thesis
        using True t1 False by (subst getTypeNameFrom.simps) simp
    qed
  next
    case notNN: False
    show ?thesis
    proof (cases "Kind tp = ''LIST''")
      case True
      with less.prems obtain t2 where t2: "OfType tp = Some t2" "unnamedTerminal t2"
        by (auto simp: unnamedTerminal.simps [of tp] wrapperKinds_def split: option.splits)
      have "getTypeNameFrom t2 conf ((acc @ ''*'') @ ''[]'') = Inl NilDeref"
        using less.IH [of t2 "(acc @ ''*'') @ ''[]''"] t2 size_OfType [OF t2(1)] by blast
      then show ?thesis
        using True t2 by (subst getTypeNameFrom.simps) simp
    next
      case False
      with notNN less.prems have "Name tp = None"
        by (auto simp: unnamedTerminal.simps [of tp] wrapperKinds_def)
      then show ?thesis
        using notNN False by (subst getTypeNameFrom.simps) simp
    qed
  qed
qed

text \<open>
  C7. On a chain as the schema parser builds it (every wrapper has an inner type, the inner
  type of a \<^verbatim>\<open>NON_NULL\<close> is not a \<^verbatim>\<open>NON_NULL\<close>, the chain ends in a type with a name) \<^verbatim>\<open>getTypeName\<close>
  returns a type expression: the dereference of a nil name is not reached. On a chain of
  that shape whose last type has no name it panics on the nil name: the case is not handled.
\<close>

theorem getTypeName_wellFormed:
  "(wellFormedChain tp \<longrightarrow> (\<exists>s. getTypeName tp conf = Inr s)) \<and>
   (unnamedTerminal tp \<longrightarrow> getTypeName tp conf = Inl NilDeref)"
  by (simp add: getTypeName_def getTypeNameFrom_wellFormed getTypeNameFrom_unnamedTerminal)

theorem getTypeName_wellFormed_witness:
  "wellFormedChain (nonNull (listOf (nonNull StringT))) \<and>
   (\<exists>s. getTypeName (nonNull (listOf (nonNull StringT))) noConfig = Inr s) \<and>
   unnamedTerminal (listOf (QLType ''OBJECT'' None None None None None)) \<and>
   getTypeName (listOf (QLType ''OBJECT'' None None None None None)) noConfig = Inl NilDeref"
  using getTypeName_wellFormed [of "nonNull (listOf (nonNull StringT))" noConfig]
    getTypeName_wellFormed [of "listOf (QLType ''OBJECT'' None None None None None)" noConfig]
  by (simp add: wellFormedChain.simps unnamedTerminal.simps nonNull_def listOf_def StringT_def
      namedType_def wrapperKinds_def)

text \<open>
  The condition of the grammar is part of \<open>wellFormedChain\<close> because the code tests for
  \<^verbatim>\<open>NON_NULL\<close> once before it tests for \<^verbatim>\<open>LIST\<close>: on a \<^verbatim>\<open>NON_NULL\<close> directly inside a \<^verbatim>\<open>NON_NULL\<close>, which
  no schema text denotes, it would read the nil name of the inner wrapper.
\<close>

lemma nonNull_in_nonNull:
  "chainInvariant (nonNull (nonNull StringT)) \<and>
   getTypeName (nonNull (nonNull StringT)) noConfig = Inl NilDeref"
  by (simp add: chainInvariant.simps getTypeName_def getTypeNameFrom.simps nonNull_def
      StringT_def namedType_def wrapperKinds_def)

subsection \<open>\<^verbatim>\<open>removeDuplicates\<close> and \<^verbatim>\<open>getImports\<close>\<close>








subsection \<open>The order of a \<^verbatim>\<open>range\<close> and the imports of the fields\<close>

lemma validOrder_set: "validOrder rt \<Longrightarrow> set (rangeOrder rt site xs) = set xs"
  unfolding validOrder_def by (metis set_mset_mset)

lemma validOrder_length: "validOrder rt \<Longrightarrow> length (rangeOrder rt site xs) = length xs"
  unfolding validOrder_def by (metis size_mset)

lemma validOrder_short:
  assumes "validOrder rt" and "length xs \<le> 1"
  shows "rangeOrder rt site xs = xs"
proof (cases xs)
  case Nil
  then show ?thesis using validOrder_length [OF assms(1), of site xs] by simp
next
  case (Cons x ys)
  with assms(2) have xs: "xs = [x]" by simp
  have "mset (rangeOrder rt site [x]) = {#x#}"
    using assms(1) unfolding validOrder_def by simp
  then show ?thesis using xs by simp
qed

lemma withDefault_nonempty: "withDefault ts \<noteq> []"
  by (simp add: withDefault_def)







lemma validOrder_plain: "validOrder (plainRuntime parse)"
  by (simp add: validOrder_def plainRuntime_def)





subsection \<open>The default variant\<close>




subsection \<open>Errors of template execution\<close>

lemma withExecuteErrors_sel:
  "parseSchema (withExecuteErrors errs rt) = parseSchema rt"
  "GetTypeTemplate (withExecuteErrors errs rt) = GetTypeTemplate rt"
  "GetPropertyTemplate (withExecuteErrors errs rt) = GetPropertyTemplate rt"
  "templateParse (withExecuteErrors errs rt) = templateParse rt"
  "fst (templateExecute (withExecuteErrors errs rt) tmpl data) = fst (templateExecute rt tmpl data)"
  "FormatCode (withExecuteErrors errs rt) = FormatCode rt"
  "rangeOrder (withExecuteErrors errs rt) = rangeOrder rt"
  "fileNameOf (withExecuteErrors errs rt) = fileNameOf rt"
  by (simp_all add: withExecuteErrors_def fileNameOf_def fun_eq_iff)

lemma fieldTemplatesLoop_execute_errors:
  "fieldTemplatesLoop (withExecuteErrors errs rt) fp tp typeName conf ts fieldCode methodCode imps
     = fieldTemplatesLoop rt fp tp typeName conf ts fieldCode methodCode imps"
proof (induction ts arbitrary: fieldCode methodCode imps)
  case Nil
  then show ?case by simp
next
  case (Cons t ts)
  obtain templateName templateConfig where t: "t = (templateName, templateConfig)"
    by (cases t)
  show ?case
    unfolding t by (simp add: Cons.IH Let_def withExecuteErrors_sel split: sum.splits)
qed

lemma generateField_execute_errors:
  "generateField (withExecuteErrors errs rt) site fp tp typeConf conf
     = generateField rt site fp tp typeConf conf"
  by (simp add: generateField_def fieldTemplatesLoop_execute_errors withExecuteErrors_sel
      split: option.splits)

lemma fieldsLoop_execute_errors:
  "fieldsLoop (withExecuteErrors errs rt) site i ifields tp typeConf conf fieldCodes methodCodes imps
     = fieldsLoop rt site i ifields tp typeConf conf fieldCodes methodCodes imps"
  by (induction ifields arbitrary: i fieldCodes methodCodes imps)
    (simp_all add: generateField_execute_errors split: sum.splits prod.splits)

lemma typeTemplatesLoop_execute_errors:
  "typeTemplatesLoop (withExecuteErrors errs rt) site j tp name typeConf conf ts buf
     = typeTemplatesLoop rt site j tp name typeConf conf ts buf"
proof (induction ts arbitrary: j buf)
  case Nil
  then show ?case by simp
next
  case (Cons t ts)
  obtain templateName templateConfig where t: "t = (templateName, templateConfig)"
    by (cases t)
  show ?case
    unfolding t
    by (simp add: Cons.IH fieldsLoop_execute_errors withExecuteErrors_sel
        split: sum.splits option.splits prod.splits)
qed

lemma generateType_execute_errors:
  "generateType (withExecuteErrors errs rt) site tp conf = generateType rt site tp conf"
  by (simp add: generateType_def typeTemplatesLoop_execute_errors withExecuteErrors_sel Let_def
      split: sum.splits option.splits)

lemma typesLoop_execute_errors:
  "typesLoop (withExecuteErrors errs rt) conf i types results = typesLoop rt conf i types results"
  by (induction types arbitrary: i results) (simp_all add: generateType_execute_errors withExecuteErrors_sel Let_def
      split: sum.splits option.splits)

text \<open>
  C3, amended. The three calls of \<^verbatim>\<open>Execute\<close> drop the error it returns: what a run returns (a
  mapping or an error) depends on the text each execution wrote to its buffer and not on
  whether the execution failed. A failed execution aborts nothing; the text written before
  the failure stays in the buffer and the run goes on.
\<close>

theorem execute_errors_ignored:
  "Generate (withExecuteErrors errs rt) graphSchema conf = Generate rt graphSchema conf"
  by (simp add: Generate_def typesLoop_execute_errors withExecuteErrors_sel split: sum.splits)

lemma objectType_sel:
  "Name (objectType n fs) = Some n" "Kind (objectType n fs) = ''OBJECT''"
  "Fields (objectType n fs) = Some fs" "PossibleTypes (objectType n fs) = None"
  "Description (objectType n fs) = None"
  by (simp_all add: objectType_def)

lemma plainRuntime_sel:
  "parseSchema (plainRuntime parse) = parse"
  "FormatCode (plainRuntime parse) code = Inr code"
  "rangeOrder (plainRuntime parse) site xs = xs"
  "templateParse (plainRuntime parse) name text = Inr text"
  "templateExecute (plainRuntime parse) tmpl data = (tmpl, None)"
  by (simp_all add: plainRuntime_def)

lemma plain_fields:
  "Field tc = Map.empty \<Longrightarrow>
   fieldsLoop (plainRuntime parse) site 0 idAndTags (objectType n idAndTags) tc
           conf [] [] []
     = Inr ([''field default;'', ''field default;''], [''method default; '', ''method default; ''],
            [graphqlImport, ''''])"
proof -
  let ?tags = "listOf (nonNull StringT)"
  have gi: "getImports (nonNull IDT) conf = [graphqlImport]"
     "getImports ?tags conf = ['''']" for conf
    by (simp_all add: getImports.simps IDT_def StringT_def namedType_def nonNull_def listOf_def
        internalTypeConfig_def graphqlImport_def)
  have gt: "getTypeName ?tags conf = Inr ''*[]string''"
     "getTypeName (nonNull IDT) conf = Inr ''graphql.ID''" for conf
    by (simp_all add: getTypeName_def getTypeNameFrom.simps IDT_def StringT_def namedType_def
        nonNull_def listOf_def internalTypeConfig_def)
  assume "Field tc = Map.empty"
  then show ?thesis
    by (simp add: idAndTags_def generateField_def objectType_def
        propConfOf_def withDefault_def plainRuntime_def knownTemplates_def gi gt
        trim_def spaceTab_def)
qed

lemma post_not_skipped: "\<not> hasPrefix ''Post'' ''_''" "\<not> ignored ''Post''"
  "fileNameOf (plainRuntime parse) ''Post'' = ''post_gen.go''"
  by (simp_all add: hasPrefix_def ignored_def internalTypeConfig_def fileNameOf_def plainRuntime_def asciiLower_def
      asciiLowerChar_def)

lemma plain_default:
  "GetTypeTemplate (plainRuntime parse) ''default'' = Inr \<lparr>TypeTemplate = ''type default; ''\<rparr>"
  "trim ''type default; '' spaceTab = ''type default;''"
  by (simp_all add: plainRuntime_def knownTemplates_def trim_def spaceTab_def)

lemma plain_post:
  "generateType (plainRuntime parse) site (objectType ''Post'' idAndTags) noConfig
     = Inr ''type default;''"
  by (simp add: generateType_def Let_def objectType_sel plainRuntime_sel withDefault_def
      typeConfOf_def noConfig_def plain_fields plain_default)

text \<open>
  C3, as stated: a template execution that fails aborts the run with that error. Here every
  execution returns an error, and \<^verbatim>\<open>Generate\<close> returns a mapping with the artifact of \<^verbatim>\<open>Post\<close>.
\<close>

theorem execute_failure_counterexample:
  "templateExecute failingExecute = (\<lambda>tmpl data. (tmpl, Some (Err ''execute failed''))) \<and>
   (case Generate failingExecute ''type Post { id: ID! tags: [String!] }'' noConfig of
      Inl err \<Rightarrow> None
    | Inr results \<Rightarrow> results ''post_gen.go'') = Some ''type default;''"
proof -
  have "Generate failingExecute s noConfig
      = Generate (plainRuntime (\<lambda>s. Inr postCatalogue)) s noConfig" for s
    unfolding failingExecute_def
    by (simp add: Generate_def typesLoop_execute_errors withExecuteErrors_sel split: sum.splits)
  moreover have "Generate (plainRuntime (\<lambda>s. Inr postCatalogue)) s noConfig
      = Inr [''post_gen.go'' \<mapsto> ''type default;'']" for s
    by (simp add: Generate_def postCatalogue_def plain_post post_not_skipped plainRuntime_sel
        objectType_sel unsupportedKinds_def)
  moreover have "templateExecute failingExecute
      = (\<lambda>tmpl data. (tmpl, Some (Err ''execute failed'')))"
    by (simp add: failingExecute_def withExecuteErrors_def plainRuntime_def)
  ultimately show ?thesis
    by simp
qed

subsection \<open>The order of the variants\<close>

lemma plainOrder_sel:
  "parseSchema (plainOrder rt) = parseSchema rt"
  "GetTypeTemplate (plainOrder rt) = GetTypeTemplate rt"
  "GetPropertyTemplate (plainOrder rt) = GetPropertyTemplate rt"
  "templateParse (plainOrder rt) = templateParse rt"
  "templateExecute (plainOrder rt) = templateExecute rt"
  "FormatCode (plainOrder rt) = FormatCode rt"
  "rangeOrder (plainOrder rt) site xs = xs"
  "fileNameOf (plainOrder rt) = fileNameOf rt"
  by (simp_all add: plainOrder_def fileNameOf_def fun_eq_iff)

lemma withDefault_short: "length ts \<le> 1 \<Longrightarrow> length (withDefault ts) \<le> 1"
  by (simp add: withDefault_def)

lemma propConfOf_short:
  "singleFieldVariants typeConf \<Longrightarrow> length (FieldTemplates (propConfOf typeConf f)) \<le> 1"
  by (auto simp: singleFieldVariants_def propConfOf_def split: option.splits)

lemma typeConfOf_short:
  "singleVariants conf \<Longrightarrow>
   length (Template (typeConfOf conf name)) \<le> 1 \<and> singleFieldVariants (typeConfOf conf name)"
  by (auto simp: singleVariants_def typeConfOf_def singleFieldVariants_def split: option.splits)

lemma rangeOrder_withDefault:
  "validOrder rt \<Longrightarrow> length ts \<le> 1 \<Longrightarrow>
   rangeOrder rt site (withDefault ts) = withDefault ts"
  by (rule validOrder_short) (simp_all add: withDefault_def)

lemma rangeOrder_field:
  "validOrder rt \<Longrightarrow> singleFieldVariants typeConf \<Longrightarrow>
   rangeOrder rt site (withDefault (FieldTemplates (propConfOf typeConf f)))
     = withDefault (FieldTemplates (propConfOf typeConf f))"
  using propConfOf_short [of typeConf f] by (simp add: rangeOrder_withDefault)

lemma fieldTemplatesLoop_plainOrder:
  "fieldTemplatesLoop (plainOrder rt) fp tp typeName conf ts fieldCode methodCode imps
     = fieldTemplatesLoop rt fp tp typeName conf ts fieldCode methodCode imps"
proof (induction ts arbitrary: fieldCode methodCode imps)
  case Nil
  then show ?case by simp
next
  case (Cons t ts)
  obtain templateName templateConfig where t: "t = (templateName, templateConfig)"
    by (cases t)
  show ?case
    unfolding t by (simp add: Cons.IH Let_def plainOrder_sel split: sum.splits)
qed

lemma generateField_plainOrder:
  "validOrder rt \<Longrightarrow> singleFieldVariants typeConf \<Longrightarrow>
   generateField (plainOrder rt) site fp tp typeConf conf
     = generateField rt site fp tp typeConf conf"
  by (simp add: generateField_def fieldTemplatesLoop_plainOrder plainOrder_sel rangeOrder_field
      split: option.splits)

lemma fieldsLoop_plainOrder:
  "validOrder rt \<Longrightarrow> singleFieldVariants typeConf \<Longrightarrow>
   fieldsLoop (plainOrder rt) site i ifields tp typeConf conf fieldCodes methodCodes imps
     = fieldsLoop rt site i ifields tp typeConf conf fieldCodes methodCodes imps"
  by (induction ifields arbitrary: i fieldCodes methodCodes imps)
    (simp_all add: generateField_plainOrder split: sum.splits prod.splits)

lemma typeTemplatesLoop_plainOrder:
  "validOrder rt \<Longrightarrow> singleFieldVariants typeConf \<Longrightarrow>
   typeTemplatesLoop (plainOrder rt) site j tp name typeConf conf ts buf
     = typeTemplatesLoop rt site j tp name typeConf conf ts buf"
proof (induction ts arbitrary: j buf)
  case Nil
  then show ?case by simp
next
  case (Cons t ts)
  obtain templateName templateConfig where t: "t = (templateName, templateConfig)"
    by (cases t)
  show ?case
    unfolding t using Cons.prems
    by (simp add: Cons.IH fieldsLoop_plainOrder plainOrder_sel
        split: sum.splits option.splits prod.splits)
qed

lemma generateType_plainOrder:
  assumes "validOrder rt" and "singleVariants conf"
  shows "generateType (plainOrder rt) site tp conf = generateType rt site tp conf"
proof (cases "Name tp")
  case None
  then show ?thesis by (simp add: generateType_def)
next
  case (Some name)
  let ?tc = "(typeConfOf conf name)\<lparr>Template := withDefault (Template (typeConfOf conf name))\<rparr>"
  have ord: "rangeOrder rt site (withDefault (Template (typeConfOf conf name)))
      = withDefault (Template (typeConfOf conf name))"
    using typeConfOf_short [OF assms(2), of name] assms(1) by (simp add: rangeOrder_withDefault)
  have sf: "singleFieldVariants ?tc"
    using typeConfOf_short [OF assms(2), of name] by (simp add: singleFieldVariants_def)
  show ?thesis
    using Some
    by (simp add: generateType_def Let_def plainOrder_sel ord
        typeTemplatesLoop_plainOrder [OF assms(1) sf] split: sum.splits)
qed

lemma typesLoop_plainOrder:
  "validOrder rt \<Longrightarrow> singleVariants conf \<Longrightarrow>
   typesLoop (plainOrder rt) conf i types results = typesLoop rt conf i types results"
  by (induction types arbitrary: i results)
    (simp_all add: generateType_plainOrder plainOrder_sel Let_def split: sum.splits option.splits)

lemma Generate_plainOrder:
  "validOrder rt \<Longrightarrow> singleVariants conf \<Longrightarrow>
   Generate (plainOrder rt) graphSchema conf = Generate rt graphSchema conf"
  by (simp add: Generate_def typesLoop_plainOrder plainOrder_sel split: sum.splits)

text \<open>
  C6, amended. Two runs on the same schema text and configuration, with the same
  collaborators, return the same result whatever orders their \<^verbatim>\<open>range\<close> statements pick, provided
  every entity and every field is configured with at most one template variant.
\<close>

theorem deterministic_with_single_variants:
  assumes "validOrder (rt\<lparr>rangeOrder := order1\<rparr>)" and "validOrder (rt\<lparr>rangeOrder := order2\<rparr>)"
    and "singleVariants conf"
  shows "Generate (rt\<lparr>rangeOrder := order1\<rparr>) graphSchema conf
       = Generate (rt\<lparr>rangeOrder := order2\<rparr>) graphSchema conf"
proof -
  have "plainOrder (rt\<lparr>rangeOrder := order1\<rparr>) = plainOrder (rt\<lparr>rangeOrder := order2\<rparr>)"
    by (simp add: plainOrder_def)
  then show ?thesis
    using Generate_plainOrder [OF assms(1) assms(3), of graphSchema]
      Generate_plainOrder [OF assms(2) assms(3), of graphSchema]
    by simp
qed

lemma validOrder_reverse: "validOrder (reverseOrder (plainRuntime parse))"
  by (simp add: validOrder_def reverseOrder_def)

lemma plainOrder_reverse: "plainOrder (reverseOrder (plainRuntime parse)) = plainRuntime parse"
  by (simp add: plainOrder_def reverseOrder_def plainRuntime_def)

lemma reverse_fields:
  assumes "Field tc = Map.empty"
  shows "fieldsLoop (reverseOrder (plainRuntime parse)) site 0 idAndTags
           (objectType n idAndTags) tc conf [] [] []
     = Inr ([''field default;'', ''field default;''], [''method default; '', ''method default; ''],
            [graphqlImport, ''''])"
proof -
  have "singleFieldVariants tc"
    using assms by (simp add: singleFieldVariants_def)
  then show ?thesis
    using fieldsLoop_plainOrder [OF validOrder_reverse, of tc parse site 0 idAndTags
        "objectType n idAndTags" conf "[]" "[]" "[]"] plain_fields [OF assms]
    by (simp add: plainOrder_reverse)
qed

lemma plain_ab:
  "GetTypeTemplate (plainRuntime parse) ''a'' = Inr \<lparr>TypeTemplate = ''type a; ''\<rparr>"
  "GetTypeTemplate (plainRuntime parse) ''b'' = Inr \<lparr>TypeTemplate = ''type b; ''\<rparr>"
  "trim ''type a; '' spaceTab = ''type a;''"
  "trim ''type b; '' spaceTab = ''type b;''"
  by (simp_all add: plainRuntime_def knownTemplates_def trim_def spaceTab_def)

lemma reverseOrder_sel:
  "parseSchema (reverseOrder rt) = parseSchema rt"
  "GetTypeTemplate (reverseOrder rt) = GetTypeTemplate rt"
  "GetPropertyTemplate (reverseOrder rt) = GetPropertyTemplate rt"
  "templateParse (reverseOrder rt) = templateParse rt"
  "templateExecute (reverseOrder rt) = templateExecute rt"
  "FormatCode (reverseOrder rt) = FormatCode rt"
  "rangeOrder (reverseOrder rt) site xs = rev xs"
  "fileNameOf (reverseOrder rt) = fileNameOf rt"
  by (simp_all add: reverseOrder_def fileNameOf_def fun_eq_iff)

text \<open>
  C6, as stated: the run is a function of the schema text and the configuration. With two
  variants configured for \<^verbatim>\<open>Post\<close>, a run whose \<^verbatim>\<open>range\<close> visits \<^verbatim>\<open>a\<close> first and a run whose \<^verbatim>\<open>range\<close>
  visits \<^verbatim>\<open>b\<close> first return different texts for \<^verbatim>\<open>post_gen.go\<close>.
\<close>

theorem range_order_counterexample:
  "validOrder (plainRuntime (\<lambda>s. Inr postCatalogue)) \<and>
   validOrder (reverseOrder (plainRuntime (\<lambda>s. Inr postCatalogue))) \<and>
   (case Generate (plainRuntime (\<lambda>s. Inr postCatalogue))
           ''type Post { id: ID! tags: [String!] }'' twoVariants of
      Inl err \<Rightarrow> None
    | Inr results \<Rightarrow> results ''post_gen.go'') = Some ''type a;type b;'' \<and>
   (case Generate (reverseOrder (plainRuntime (\<lambda>s. Inr postCatalogue)))
           ''type Post { id: ID! tags: [String!] }'' twoVariants of
      Inl err \<Rightarrow> None
    | Inr results \<Rightarrow> results ''post_gen.go'') = Some ''type b;type a;''"
proof -
  let ?P = "\<lambda>s::string. Inr postCatalogue :: error + qlType list"
  have a: "generateType (plainRuntime parse) site (objectType ''Post'' idAndTags) twoVariants
      = Inr ''type a;type b;''" for site parse
    by (simp add: generateType_def Let_def objectType_sel plainRuntime_sel withDefault_def
      typeConfOf_def twoVariants_def plain_fields plain_ab)
  have b: "generateType (reverseOrder (plainRuntime parse)) site (objectType ''Post'' idAndTags)
      twoVariants = Inr ''type b;type a;''" for site parse
    by (simp add: generateType_def Let_def objectType_sel plainRuntime_sel withDefault_def
      typeConfOf_def twoVariants_def reverse_fields plain_ab reverseOrder_sel)
  have "Generate (plainRuntime ?P) s twoVariants = Inr [''post_gen.go'' \<mapsto> ''type a;type b;'']" for s
    by (simp add: Generate_def postCatalogue_def a post_not_skipped plainRuntime_sel
        objectType_sel unsupportedKinds_def)
  moreover have "Generate (reverseOrder (plainRuntime ?P)) s twoVariants
      = Inr [''post_gen.go'' \<mapsto> ''type b;type a;'']" for s
    by (simp add: Generate_def postCatalogue_def b post_not_skipped plainRuntime_sel
        objectType_sel unsupportedKinds_def reverseOrder_sel)
  ultimately show ?thesis
    by (simp add: validOrder_plain validOrder_reverse)
qed

lemma singleVariants_oneVariant: "singleVariants oneVariant"
  by (auto simp: singleVariants_def singleFieldVariants_def oneVariant_def split: if_splits)

theorem deterministic_with_single_variants_witness:
  "validOrder ((plainRuntime (\<lambda>s. Inr postCatalogue))\<lparr>rangeOrder := \<lambda>site xs. xs\<rparr>) \<and>
   validOrder ((plainRuntime (\<lambda>s. Inr postCatalogue))\<lparr>rangeOrder := \<lambda>site xs. rev xs\<rparr>) \<and>
   singleVariants oneVariant \<and>
   Generate ((plainRuntime (\<lambda>s. Inr postCatalogue))\<lparr>rangeOrder := \<lambda>site xs. xs\<rparr>)
     ''type Post { id: ID! tags: [String!] }'' oneVariant
   = Generate ((plainRuntime (\<lambda>s. Inr postCatalogue))\<lparr>rangeOrder := \<lambda>site xs. rev xs\<rparr>)
     ''type Post { id: ID! tags: [String!] }'' oneVariant"
proof -
  let ?rt = "plainRuntime (\<lambda>s::string. Inr postCatalogue :: error + qlType list)"
  have v1: "validOrder (?rt\<lparr>rangeOrder := \<lambda>site xs. xs\<rparr>)"
    by (simp add: validOrder_def)
  have v2: "validOrder (?rt\<lparr>rangeOrder := \<lambda>site xs. rev xs\<rparr>)"
    by (simp add: validOrder_def)
  show ?thesis
    using deterministic_with_single_variants [OF v1 v2 singleVariants_oneVariant] v1 v2 singleVariants_oneVariant
    by simp
qed

subsection \<open>Where errors come from\<close>

lemma getTypeNameFrom_error: "getTypeNameFrom tp conf acc = Inl err \<Longrightarrow> err = NilDeref"
proof (induction tp arbitrary: acc rule: measure_induct_rule [where f = size])
  case (less tp)
  from less.prems show ?case
    apply (subst (asm) getTypeNameFrom.simps)
    apply (auto split: if_splits option.splits dest!: size_OfType dest: less.IH [rotated])
    done
qed

lemma collaboratorErrorsI:
  "GetTypeTemplate rt v = Inl err \<Longrightarrow> err \<in> collaboratorErrors rt"
  "GetPropertyTemplate rt v = Inl err \<Longrightarrow> err \<in> collaboratorErrors rt"
  "templateParse rt name text = Inl err \<Longrightarrow> err \<in> collaboratorErrors rt"
  "FormatCode rt code = Inl err \<Longrightarrow> err \<in> collaboratorErrors rt"
  "parseSchema rt s = Inl err \<Longrightarrow> err \<in> collaboratorErrors rt"
  by (auto simp: collaboratorErrors_def)

lemma fieldTemplatesLoop_error:
  "fieldTemplatesLoop rt fp tp typeName conf ts fieldCode methodCode imps = Inl err \<Longrightarrow>
   err = NilDeref \<or> err \<in> collaboratorErrors rt"
proof (induction ts arbitrary: fieldCode methodCode imps)
  case Nil
  then show ?case by simp
next
  case (Cons t ts)
  obtain templateName templateConfig where t: "t = (templateName, templateConfig)"
    by (cases t)
  from Cons.prems show ?case
    unfolding t
    by (auto simp: Let_def getTypeName_def split: sum.splits
        dest: Cons.IH collaboratorErrorsI getTypeNameFrom_error)
qed

lemma generateField_error:
  "generateField rt site fp tp typeConf conf = Inl err \<Longrightarrow>
   err = NilDeref \<or> err \<in> collaboratorErrors rt"
  by (auto simp: generateField_def split: option.splits dest: fieldTemplatesLoop_error)

lemma fieldsLoop_error:
  "fieldsLoop rt site i ifields tp typeConf conf fieldCodes methodCodes imps = Inl err \<Longrightarrow>
   err = NilDeref \<or> err \<in> collaboratorErrors rt"
  by (induction ifields arbitrary: i fieldCodes methodCodes imps)
    (auto split: sum.splits prod.splits dest: generateField_error)

lemma possibleTypesLoop_error: "possibleTypesLoop tps acc = Inl err \<Longrightarrow> err = NilDeref"
  by (induction tps arbitrary: acc) (auto split: option.splits)

lemma typeTemplatesLoop_error:
  "typeTemplatesLoop rt site j tp name typeConf conf ts buf = Inl err \<Longrightarrow>
   err = NilDeref \<or> err \<in> collaboratorErrors rt"
proof (induction ts arbitrary: j buf)
  case Nil
  then show ?case by simp
next
  case (Cons t ts)
  obtain templateName templateConfig where t: "t = (templateName, templateConfig)"
    by (cases t)
  from Cons.prems show ?case
    unfolding t
    by (auto split: sum.splits option.splits prod.splits
        dest: Cons.IH collaboratorErrorsI fieldsLoop_error possibleTypesLoop_error)
qed

lemma generateType_error:
  "generateType rt site tp conf = Inl err \<Longrightarrow> err = NilDeref \<or> err \<in> collaboratorErrors rt"
  by (auto simp: generateType_def Let_def split: option.splits sum.splits
      dest: typeTemplatesLoop_error collaboratorErrorsI)

lemma typesLoop_error:
  "typesLoop rt conf i types results = Inl err \<Longrightarrow> err = NilDeref \<or> err \<in> collaboratorErrors rt"
  by (induction types arbitrary: i results)
    (auto simp: Let_def split: option.splits sum.splits if_splits dest: generateType_error)

text \<open>
  C5, amended. An error that \<^verbatim>\<open>Generate\<close> returns is the error value of a collaborator (the schema
  parser, the template lookup, the template parser or the formatter), handed on unchanged:
  the code adds no entity, field or variant name to it. The only other way a run ends
  without a mapping is the panic of a nil dereference.
\<close>

theorem errors_come_from_collaborators:
  "Generate rt graphSchema conf = Inl err \<Longrightarrow> err = NilDeref \<or> err \<in> collaboratorErrors rt"
  by (auto simp: Generate_def split: sum.splits dest: typesLoop_error collaboratorErrorsI)

subsection \<open>Unknown template variants\<close>

lemma fieldTemplatesLoop_unknown:
  "(v, bag) \<in> set ts \<Longrightarrow> isl (GetPropertyTemplate rt v) \<Longrightarrow>
   isl (fieldTemplatesLoop rt fp tp typeName conf ts fieldCode methodCode imps)"
proof (induction ts arbitrary: fieldCode methodCode imps)
  case Nil
  then show ?case by simp
next
  case (Cons t ts)
  obtain templateName templateConfig where t: "t = (templateName, templateConfig)"
    by (cases t)
  show ?case
  proof (cases "t = (v, bag)")
    case True
    with Cons.prems(2) t show ?thesis
      by (auto simp: isl_def)
  next
    case False
    with Cons.prems have "(v, bag) \<in> set ts" by simp
    then show ?thesis
      unfolding t using Cons.IH Cons.prems(2)
      by (auto simp: Let_def split: sum.splits)
  qed
qed

lemma generateField_unknown:
  assumes "validOrder rt"
    and "(v, bag) \<in> set (withDefault (FieldTemplates (propConfOf typeConf (FieldName fp))))"
    and "isl (GetPropertyTemplate rt v)"
  shows "isl (generateField rt site fp tp typeConf conf)"
  using assms fieldTemplatesLoop_unknown [of v bag _ rt]
  by (auto simp: generateField_def validOrder_set split: option.splits)

lemma fieldsLoop_unknown:
  assumes "\<And>site. isl (generateField rt site fp tp typeConf conf)"
  shows "fp \<in> set ifields \<Longrightarrow>
    isl (fieldsLoop rt site i ifields tp typeConf conf fieldCodes methodCodes imps)"
proof (induction ifields arbitrary: i fieldCodes methodCodes imps)
  case Nil
  then show ?case by simp
next
  case (Cons f ifields)
  show ?case
  proof (cases "f = fp")
    case True
    then show ?thesis
      using assms [of "site @ [i]"] by (auto simp: isl_def)
  next
    case False
    with Cons.prems have "fp \<in> set ifields" by simp
    then show ?thesis
      using Cons.IH by (auto split: sum.splits prod.splits)
  qed
qed

lemma typeTemplatesLoop_fields_fail:
  assumes "\<And>ifields site. Fields tp = Some ifields \<Longrightarrow>
      isl (fieldsLoop rt site 0 ifields tp typeConf conf [] [] [])"
    and "ts \<noteq> []"
  shows "isl (typeTemplatesLoop rt site j tp name typeConf conf ts buf)"
proof -
  from assms(2) obtain templateName templateConfig rest
    where ts: "ts = (templateName, templateConfig) # rest"
    by (cases ts) auto
  have "\<exists>err. fieldsLoop rt (site @ [j]) 0 ifields tp typeConf conf [] [] [] = Inl err"
    if "Fields tp = Some ifields" for ifields
    using assms(1) [OF that, of "site @ [j]"] by (simp add: isl_def)
  then show ?thesis
    unfolding ts by (auto split: sum.splits option.splits prod.splits)
qed

lemma typeTemplatesLoop_unknown:
  "(v, bag) \<in> set ts \<Longrightarrow> isl (GetTypeTemplate rt v) \<Longrightarrow>
   isl (typeTemplatesLoop rt site j tp name typeConf conf ts buf)"
proof (induction ts arbitrary: j buf)
  case Nil
  then show ?case by simp
next
  case (Cons t ts)
  obtain templateName templateConfig where t: "t = (templateName, templateConfig)"
    by (cases t)
  show ?case
  proof (cases "t = (v, bag)")
    case True
    with Cons.prems(2) t show ?thesis
      by (auto simp: isl_def)
  next
    case False
    with Cons.prems have "(v, bag) \<in> set ts" by simp
    then show ?thesis
      unfolding t using Cons.IH Cons.prems(2)
      by (auto split: sum.splits option.splits prod.splits)
  qed
qed

lemma generateType_unknown:
  assumes "validOrder rt" and "typeVariantUnknown rt conf tp \<or> fieldVariantUnknown rt conf tp"
  shows "isl (generateType rt site tp conf)"
proof (cases "Name tp")
  case None
  then show ?thesis by (simp add: generateType_def)
next
  case (Some name)
  let ?tc = "(typeConfOf conf name)\<lparr>Template := withDefault (Template (typeConfOf conf name))\<rparr>"
  let ?ts = "rangeOrder rt site (withDefault (Template (typeConfOf conf name)))"
  have loop: "isl (typeTemplatesLoop rt site 0 tp name ?tc conf ?ts [])"
    using assms(2)
  proof
    assume "typeVariantUnknown rt conf tp"
    then obtain v bag where "(v, bag) \<in> set (withDefault (Template (typeConfOf conf name)))"
      "isl (GetTypeTemplate rt v)"
      using Some by (auto simp: typeVariantUnknown_def list_ex_iff)
    then show ?thesis
      using typeTemplatesLoop_unknown [of v bag ?ts rt] validOrder_set [OF assms(1)] by simp
  next
    assume "fieldVariantUnknown rt conf tp"
    then obtain ifields fp v bag where f: "Fields tp = Some ifields" "fp \<in> set ifields"
      "(v, bag) \<in> set (withDefault (FieldTemplates (propConfOf (typeConfOf conf name) (FieldName fp))))"
      "isl (GetPropertyTemplate rt v)"
      using Some by (auto simp: fieldVariantUnknown_def list_ex_iff split: option.splits)
    have pc: "propConfOf ?tc (FieldName fp) = propConfOf (typeConfOf conf name) (FieldName fp)"
      by (simp add: propConfOf_def)
    have gf: "isl (generateField rt s fp tp ?tc conf)" for s
      using generateField_unknown [OF assms(1), of v bag ?tc fp s tp conf] f(3,4) pc by simp
    have "isl (fieldsLoop rt s 0 fs tp ?tc conf [] [] [])" if "Fields tp = Some fs" for fs s
      using fieldsLoop_unknown [of rt fp tp ?tc conf fs s 0 "[]" "[]" "[]"] gf f(1,2) that by simp
    moreover have "?ts \<noteq> []"
      using validOrder_length [OF assms(1), of site "withDefault (Template (typeConfOf conf name))"]
        withDefault_nonempty [of "Template (typeConfOf conf name)"] by auto
    ultimately show ?thesis
      by (rule typeTemplatesLoop_fields_fail)
  qed
  then show ?thesis
    using Some by (auto simp: generateType_def Let_def isl_def split: sum.splits)
qed

lemma typesLoop_fail:
  assumes "\<And>site. isl (generateType rt site tp conf)" and "processed tp"
  shows "tp \<in> set types \<Longrightarrow> isl (typesLoop rt conf i types results)"
proof (induction types arbitrary: i results)
  case Nil
  then show ?case by simp
next
  case (Cons t types)
  show ?case
  proof (cases "t = tp")
    case True
    then show ?thesis
      using assms(2) assms(1) [of "[i]"]
      by (auto simp: processed_def Let_def isl_def split: option.splits)
  next
    case False
    with Cons.prems have "tp \<in> set types" by simp
    then show ?thesis
      using Cons.IH by (auto simp: Let_def split: option.splits sum.splits)
  qed
qed

lemma fieldTemplatesLoop_no_panic:
  "fieldTemplatesLoop rt fp tp typeName conf ts fieldCode methodCode imps = Inl err \<Longrightarrow>
   wellFormedChain (FieldType fp) \<Longrightarrow> err \<in> collaboratorErrors rt"
proof (induction ts arbitrary: fieldCode methodCode imps)
  case Nil
  then show ?case by simp
next
  case (Cons t ts)
  obtain templateName templateConfig where t: "t = (templateName, templateConfig)"
    by (cases t)
  obtain s where s: "getTypeName (FieldType fp) conf = Inr s"
    using getTypeNameFrom_wellFormed [OF Cons.prems(2)] by (auto simp: getTypeName_def)
  from Cons.prems(1) show ?case
    unfolding t
    by (auto simp: Let_def s split: sum.splits
        dest: Cons.IH [OF _ Cons.prems(2)] collaboratorErrorsI)
qed

lemma generateField_no_panic:
  "generateField rt site fp tp typeConf conf = Inl err \<Longrightarrow> Name tp \<noteq> None \<Longrightarrow>
   wellFormedChain (FieldType fp) \<Longrightarrow> err \<in> collaboratorErrors rt"
  by (auto simp: generateField_def split: option.splits dest: fieldTemplatesLoop_no_panic)

lemma fieldsLoop_no_panic:
  "fieldsLoop rt site i ifields tp typeConf conf fieldCodes methodCodes imps = Inl err \<Longrightarrow>
   Name tp \<noteq> None \<Longrightarrow> list_all (\<lambda>fp. wellFormedChain (FieldType fp)) ifields \<Longrightarrow>
   err \<in> collaboratorErrors rt"
  by (induction ifields arbitrary: i fieldCodes methodCodes imps)
    (auto split: sum.splits prod.splits dest: generateField_no_panic)

lemma possibleTypesLoop_no_panic:
  "list_all (\<lambda>t. Name t \<noteq> None) tps \<Longrightarrow> \<exists>names. possibleTypesLoop tps acc = Inr names"
  by (induction tps arbitrary: acc) auto

lemma typeTemplatesLoop_no_panic:
  "typeTemplatesLoop rt site j tp name typeConf conf ts buf = Inl err \<Longrightarrow>
   Name tp \<noteq> None \<Longrightarrow> renderable tp \<Longrightarrow> err \<in> collaboratorErrors rt"
proof (induction ts arbitrary: j buf)
  case Nil
  then show ?case by simp
next
  case (Cons t ts)
  obtain templateName templateConfig where t: "t = (templateName, templateConfig)"
    by (cases t)
  from Cons.prems(3) obtain ifields where f: "Fields tp = Some ifields"
    "list_all (\<lambda>fp. wellFormedChain (FieldType fp)) ifields"
    by (auto simp: renderable_def split: option.splits)
  from Cons.prems(3) obtain names where
    p: "(case PossibleTypes tp of None \<Rightarrow> Inr [] | Some tps \<Rightarrow> possibleTypesLoop tps []) = Inr names"
    using possibleTypesLoop_no_panic [of _ "[]"]
    by (cases "PossibleTypes tp") (auto simp: renderable_def)
  from Cons.prems(1) show ?case
    unfolding t
    by (auto simp: f p split: sum.splits prod.splits
        dest: Cons.IH [OF _ Cons.prems(2,3)] collaboratorErrorsI
          fieldsLoop_no_panic [OF _ Cons.prems(2) f(2)])
qed

lemma generateType_no_panic:
  "generateType rt site tp conf = Inl err \<Longrightarrow> Name tp \<noteq> None \<Longrightarrow> renderable tp \<Longrightarrow>
   err \<in> collaboratorErrors rt"
  by (auto simp: generateType_def Let_def split: option.splits sum.splits
      dest: typeTemplatesLoop_no_panic collaboratorErrorsI)

lemma typesLoop_no_panic:
  "typesLoop rt conf i types results = Inl err \<Longrightarrow> panicFree types \<Longrightarrow>
   err \<in> collaboratorErrors rt"
proof (induction types arbitrary: i results)
  case Nil
  then show ?case by simp
next
  case (Cons tp types)
  from Cons.prems(2) have pf: "panicFree types" and n: "Name tp \<noteq> None"
    and r: "processed tp \<Longrightarrow> renderable tp"
    by (auto simp: panicFree_def)
  from Cons.prems(1) n show ?case
    by (auto simp: Let_def processed_def split: option.splits sum.splits if_splits
        dest: Cons.IH [OF _ pf] generateType_no_panic [OF _ n r])
qed

lemma Generate_no_panic:
  "Generate rt graphSchema conf = Inl err \<Longrightarrow> parseSchema rt graphSchema = Inr types \<Longrightarrow>
   panicFree types \<Longrightarrow> err \<in> collaboratorErrors rt"
  by (auto simp: Generate_def dest: typesLoop_no_panic)

text \<open>
  C4, amended. Let an entity of the catalogue be one that \<^verbatim>\<open>Generate\<close> renders (its name has no
  underscore prefix and is not an ignored scalar, its kind is not \<^verbatim>\<open>ENUM\<close>, \<^verbatim>\<open>INPUT_OBJECT\<close> or
  \<^verbatim>\<open>UNION\<close>), and let the lookup fail for a variant configured for it or for one of its fields.
  Then the run returns no mapping, also when entities before this one were rendered: it
  ends with the error value of a collaborator or with the panic of a nil dereference. When
  the schema view has no nil where the code dereferences (\<open>panicFree\<close>), it ends with the
  error value of a collaborator, which is an error with a message and no panic as long as
  the collaborators return no panic for an error.
\<close>

theorem unknown_variant_aborts_run:
  assumes "validOrder rt" and "parseSchema rt graphSchema = Inr types"
    and "tp \<in> set types" and "processed tp"
    and "typeVariantUnknown rt conf tp \<or> fieldVariantUnknown rt conf tp"
  shows "(\<exists>err. Generate rt graphSchema conf = Inl err \<and>
            (err = NilDeref \<or> err \<in> collaboratorErrors rt)) \<and>
         (panicFree types \<longrightarrow>
            (\<exists>err. Generate rt graphSchema conf = Inl err \<and> err \<in> collaboratorErrors rt \<and>
               (NilDeref \<notin> collaboratorErrors rt \<longrightarrow> (\<exists>message. err = Err message))))"
proof -
  have "isl (generateType rt site tp conf)" for site
    using assms(1,5) by (rule generateType_unknown)
  then have "isl (typesLoop rt conf 0 types Map.empty)"
    using assms(4,3) by (rule typesLoop_fail)
  then obtain err where err: "Generate rt graphSchema conf = Inl err"
    using assms(2) by (auto simp: Generate_def isl_def)
  have "err = NilDeref \<or> err \<in> collaboratorErrors rt"
    using err by (auto simp: Generate_def split: sum.splits dest: typesLoop_error collaboratorErrorsI)
  moreover have "err \<in> collaboratorErrors rt" if "panicFree types"
    using err assms(2) that by (rule Generate_no_panic)
  moreover have "\<exists>message. err = Err message"
    if "err \<in> collaboratorErrors rt" and "NilDeref \<notin> collaboratorErrors rt"
    using that by (cases err) auto
  ultimately show ?thesis
    using err by auto
qed

subsection \<open>Runs with an unknown variant\<close>

lemma alphaBeta_eval:
  "alphaBeta alphaText = Inr [objectType ''Alpha'' idAndTags]"
  "alphaBeta betaText = Inr [objectType ''Beta'' idAndTags]"
  "alphaBeta alphaBetaText
     = Inr [objectType ''Alpha'' idAndTags, objectType ''Beta'' idAndTags]"
  by (simp_all add: alphaBeta_def alphaText_def betaText_def alphaBetaText_def)

lemma alphaBeta_not_skipped:
  "\<not> hasPrefix ''Alpha'' ''_''" "\<not> ignored ''Alpha''" "fileNameOf (plainRuntime parse) ''Alpha'' = ''alpha_gen.go''"
  "\<not> hasPrefix ''Beta'' ''_''" "\<not> ignored ''Beta''" "fileNameOf (plainRuntime parse) ''Beta'' = ''beta_gen.go''"
  by (simp_all add: hasPrefix_def ignored_def internalTypeConfig_def fileNameOf_def plainRuntime_def asciiLower_def
      asciiLowerChar_def)

lemma plain_nope:
  "GetTypeTemplate (plainRuntime parse) ''nope'' = Inl (Err ''unknown type template nope'')"
  by (simp add: plainRuntime_def knownTemplates_def)

lemma nope_alpha:
  "generateType (plainRuntime parse) site (objectType ''Alpha'' idAndTags) unknownBoth
     = Inl (Err ''unknown type template nope'')"
  by (simp add: generateType_def Let_def objectType_sel plainRuntime_sel withDefault_def
      typeConfOf_def unknownBoth_def plain_nope)

lemma nope_beta:
  "generateType (plainRuntime parse) site (objectType ''Beta'' idAndTags) unknownBoth
     = Inl (Err ''unknown type template nope'')"
  "generateType (plainRuntime parse) site (objectType ''Beta'' idAndTags) unknownBeta
     = Inl (Err ''unknown type template nope'')"
  by (simp_all add: generateType_def Let_def objectType_sel plainRuntime_sel withDefault_def
      typeConfOf_def unknownBoth_def unknownBeta_def plain_nope)

lemma default_alpha:
  "generateType (plainRuntime parse) site (objectType ''Alpha'' idAndTags) unknownBeta
     = Inr ''type default;''"
  by (simp add: generateType_def Let_def objectType_sel plainRuntime_sel withDefault_def
      typeConfOf_def unknownBeta_def plain_fields plain_default)

lemma plain_property:
  "GetPropertyTemplate (plainRuntime parse) ''nope''
     = Inl (Err ''unknown property template nope'')"
  "GetPropertyTemplate (plainRuntime parse) ''default''
     = Inr \<lparr>FieldTemplate = ''field default; '', MethodTemplate = ''method default; ''\<rparr>"
  by (simp_all add: plainRuntime_def knownTemplates_def)

lemma nope_field:
  "generateType (plainRuntime parse) site (objectType ''Alpha'' idAndTags) unknownForId
     = Inl (Err ''unknown property template nope'')"
  "generateType (plainRuntime parse) site (objectType ''Alpha'' idAndTags) unknownForTags
     = Inl (Err ''unknown property template nope'')"
proof -
  have gt: "getTypeName (nonNull IDT) conf = Inr ''graphql.ID''" for conf
    by (simp add: getTypeName_def getTypeNameFrom.simps IDT_def namedType_def nonNull_def
        internalTypeConfig_def)
  show "generateType (plainRuntime parse) site (objectType ''Alpha'' idAndTags) unknownForId
     = Inl (Err ''unknown property template nope'')"
    by (simp add: generateType_def Let_def objectType_sel plainRuntime_sel withDefault_def
      typeConfOf_def unknownForId_def plain_default idAndTags_def generateField_def
      propConfOf_def plain_property)
  show "generateType (plainRuntime parse) site (objectType ''Alpha'' idAndTags) unknownForTags
     = Inl (Err ''unknown property template nope'')"
    by (simp add: generateType_def Let_def objectType_sel plainRuntime_sel withDefault_def
      typeConfOf_def unknownForTags_def plain_default idAndTags_def generateField_def
      propConfOf_def plain_property gt)
qed

text \<open>
  C5, as stated: an error names the entity at fault and, where there is one, the field. The
  lookup of a template receives the variant name only, so its error cannot depend on the
  entity or the field: with the unknown variant \<^verbatim>\<open>nope\<close> configured for \<^verbatim>\<open>Alpha\<close> and for \<^verbatim>\<open>Beta\<close>, the
  run over the schema that defines \<^verbatim>\<open>Alpha\<close> and the run over the schema that defines \<^verbatim>\<open>Beta\<close>
  return the same error; and the run with \<^verbatim>\<open>nope\<close> configured for the field \<^verbatim>\<open>id\<close> returns the same
  error as the run with \<^verbatim>\<open>nope\<close> configured for the field \<^verbatim>\<open>tags\<close>.
\<close>

theorem error_context_counterexample:
  "parseSchema (plainRuntime alphaBeta) alphaText = Inr [objectType ''Alpha'' idAndTags] \<and>
   parseSchema (plainRuntime alphaBeta) betaText = Inr [objectType ''Beta'' idAndTags] \<and>
   Generate (plainRuntime alphaBeta) alphaText unknownBoth
     = Inl (Err ''unknown type template nope'') \<and>
   Generate (plainRuntime alphaBeta) betaText unknownBoth
     = Inl (Err ''unknown type template nope'') \<and>
   Generate (plainRuntime alphaBeta) alphaText unknownForId
     = Inl (Err ''unknown property template nope'') \<and>
   Generate (plainRuntime alphaBeta) alphaText unknownForTags
     = Inl (Err ''unknown property template nope'')"
  by (simp add: Generate_def plainRuntime_sel alphaBeta_eval objectType_sel alphaBeta_not_skipped
      unsupportedKinds_def nope_alpha nope_beta nope_field)

theorem errors_come_from_collaborators_witness:
  "Generate (plainRuntime alphaBeta) alphaText unknownBoth
     = Inl (Err ''unknown type template nope'') \<and>
   Err ''unknown type template nope'' \<in> collaboratorErrors (plainRuntime alphaBeta)"
proof -
  have g: "Generate (plainRuntime alphaBeta) alphaText unknownBoth
     = Inl (Err ''unknown type template nope'')"
    by (simp add: Generate_def plainRuntime_sel alphaBeta_eval objectType_sel alphaBeta_not_skipped
      unsupportedKinds_def nope_alpha)
  show ?thesis
    using errors_come_from_collaborators [OF g] g by simp
qed

lemma wellFormed_examples:
  "wellFormedChain (nonNull IDT)" "wellFormedChain (listOf (nonNull StringT))" "wellFormedChain IDT"
  by (simp_all add: wellFormedChain.simps nonNull_def listOf_def IDT_def StringT_def namedType_def
      wrapperKinds_def)

lemma plain_no_panic_value: "NilDeref \<notin> collaboratorErrors (plainRuntime alphaBeta)"
  by (auto simp: collaboratorErrors_def plainRuntime_def alphaBeta_def split: if_splits)

theorem unknown_variant_aborts_run_witness:
  "validOrder (plainRuntime alphaBeta) \<and>
   parseSchema (plainRuntime alphaBeta) alphaBetaText
     = Inr [objectType ''Alpha'' idAndTags, objectType ''Beta'' idAndTags] \<and>
   objectType ''Beta'' idAndTags \<in> set [objectType ''Alpha'' idAndTags, objectType ''Beta'' idAndTags] \<and>
   processed (objectType ''Beta'' idAndTags) \<and>
   typeVariantUnknown (plainRuntime alphaBeta) unknownBeta (objectType ''Beta'' idAndTags) \<and>
   panicFree [objectType ''Alpha'' idAndTags, objectType ''Beta'' idAndTags] \<and>
   NilDeref \<notin> collaboratorErrors (plainRuntime alphaBeta) \<and>
   generateType (plainRuntime alphaBeta) [0] (objectType ''Alpha'' idAndTags) unknownBeta
     = Inr ''type default;'' \<and>
   Generate (plainRuntime alphaBeta) alphaBetaText unknownBeta
     = Inl (Err ''unknown type template nope'') \<and>
   Err ''unknown type template nope'' \<in> collaboratorErrors (plainRuntime alphaBeta) \<and>
   objectType ''Alpha'' idAndTags \<in> set [objectType ''Alpha'' idAndTags, objectType ''Beta'' idAndTags] \<and>
   processed (objectType ''Alpha'' idAndTags) \<and>
   fieldVariantUnknown (plainRuntime alphaBeta) unknownForTags (objectType ''Alpha'' idAndTags) \<and>
   Generate (plainRuntime alphaBeta) alphaBetaText unknownForTags
     = Inl (Err ''unknown property template nope'') \<and>
   Err ''unknown property template nope'' \<in> collaboratorErrors (plainRuntime alphaBeta)"
proof -
  let ?rt = "plainRuntime alphaBeta"
  let ?alpha = "objectType ''Alpha'' idAndTags"
  let ?beta = "objectType ''Beta'' idAndTags"
  have v: "validOrder ?rt" by (rule validOrder_plain)
  have p: "parseSchema ?rt alphaBetaText = Inr [?alpha, ?beta]"
    by (simp add: plainRuntime_sel alphaBeta_eval)
  have m: "?beta \<in> set [?alpha, ?beta]" "?alpha \<in> set [?alpha, ?beta]" by simp_all
  have pr: "processed ?beta" "processed ?alpha"
    by (simp_all add: processed_def objectType_sel alphaBeta_not_skipped unsupportedKinds_def)
  have u: "typeVariantUnknown ?rt unknownBeta ?beta"
    by (simp add: typeVariantUnknown_def objectType_sel typeConfOf_def unknownBeta_def
        withDefault_def plain_nope)
  have f: "fieldVariantUnknown ?rt unknownForTags ?alpha"
    by (simp add: fieldVariantUnknown_def objectType_sel typeConfOf_def unknownForTags_def
        withDefault_def plain_property propConfOf_def idAndTags_def)
  have pf: "panicFree [?alpha, ?beta]"
    by (simp add: panicFree_def renderable_def objectType_sel idAndTags_def wellFormed_examples)
  have g1: "Generate ?rt alphaBetaText unknownBeta = Inl (Err ''unknown type template nope'')"
    by (simp add: Generate_def plainRuntime_sel alphaBeta_eval objectType_sel alphaBeta_not_skipped
        unsupportedKinds_def default_alpha nope_beta)
  have g2: "Generate ?rt alphaBetaText unknownForTags
      = Inl (Err ''unknown property template nope'')"
    by (simp add: Generate_def plainRuntime_sel alphaBeta_eval objectType_sel alphaBeta_not_skipped
        unsupportedKinds_def nope_field)
  have "Err ''unknown type template nope'' \<in> collaboratorErrors ?rt"
    using unknown_variant_aborts_run [OF v p m(1) pr(1) disjI1 [OF u]] pf g1 by auto
  moreover have "Err ''unknown property template nope'' \<in> collaboratorErrors ?rt"
    using unknown_variant_aborts_run [OF v p m(2) pr(2) disjI2 [OF f]] pf g2 by auto
  ultimately show ?thesis
    using v p pr u f pf default_alpha g1 g2 plain_no_panic_value by simp
qed

subsection \<open>Unsupported kinds\<close>

lemma typesLoop_append:
  "typesLoop rt conf i (xs @ ys) results =
     (case typesLoop rt conf i xs results of
        Inl err \<Rightarrow> Inl err
      | Inr r \<Rightarrow> typesLoop rt conf (i + length xs) ys r)"
  by (induction xs arbitrary: i results)
    (simp_all add: Let_def split: option.splits sum.splits)

lemma catalogueFileNames_Cons:
  "catalogueFileNames rt (tp # types) =
     (case Name tp of None \<Rightarrow> [] | Some name \<Rightarrow> [fileNameOf rt name]) @ catalogueFileNames rt types"
  by (simp add: catalogueFileNames_def List.map_filter_simps split: option.splits)

lemma typesLoop_other_keys:
  "typesLoop rt conf i types results = Inr r \<Longrightarrow> k \<notin> set (catalogueFileNames rt types) \<Longrightarrow>
   r k = results k"
proof (induction types arbitrary: i results)
  case Nil
  then show ?case by simp
next
  case (Cons tp types)
  from Cons.prems show ?case
    by (auto simp: Let_def catalogueFileNames_Cons split: option.splits if_splits sum.splits
        dest!: Cons.IH)
qed

lemma typesLoop_dom:
  "typesLoop rt conf i types results = Inr r \<Longrightarrow> k \<in> dom results \<Longrightarrow> k \<in> dom r"
proof (induction types arbitrary: i results)
  case Nil
  then show ?case by simp
next
  case (Cons tp types)
  from Cons.prems show ?case
    by (auto simp: Let_def split: option.splits if_splits sum.splits dest!: Cons.IH)
qed

lemma typesLoop_unsupported:
  assumes "Name tp = Some name" and "\<not> hasPrefix name ''_''" and "\<not> ignored name"
    and "Kind tp \<in> set unsupportedKinds"
  shows "typesLoop rt conf i (tp # types) results
       = typesLoop rt conf (Suc i) types (results(fileNameOf rt name \<mapsto> []))"
  using assms by (simp add: Let_def)

text \<open>
  C1, amended. An entity of kind \<^verbatim>\<open>ENUM\<close>, \<^verbatim>\<open>INPUT_OBJECT\<close> or \<^verbatim>\<open>UNION\<close> (no underscore prefix, not
  an ignored scalar) is not rendered and is no cause of failure: the loop stores the empty
  text under the file name of the entity and goes on. When the run returns a mapping, the
  mapping has an entry under that file name, and the entry is the empty text unless a later
  entity of the catalogue has the same file name.
\<close>

theorem unsupported_kind_empty_artifact:
  assumes "parseSchema rt graphSchema = Inr (before @ tp # after)"
    and "Name tp = Some name" and "\<not> hasPrefix name ''_''" and "\<not> ignored name"
    and "Kind tp \<in> set unsupportedKinds"
    and "Generate rt graphSchema conf = Inr results"
  shows "typesLoop rt conf i (tp # after) r
           = typesLoop rt conf (Suc i) after (r(fileNameOf rt name \<mapsto> [])) \<and>
         fileNameOf rt name \<in> dom results \<and>
         (fileNameOf rt name \<notin> set (catalogueFileNames rt after) \<longrightarrow>
            results (fileNameOf rt name) = Some [])"
proof -
  from assms(1,6) obtain r0 where
    pre: "typesLoop rt conf 0 before Map.empty = Inr r0"
    and post: "typesLoop rt conf (length before) (tp # after) r0 = Inr results"
    by (auto simp: Generate_def typesLoop_append split: sum.splits)
  have step: "typesLoop rt conf j (tp # after) x
      = typesLoop rt conf (Suc j) after (x(fileNameOf rt name \<mapsto> []))" for j x
    using assms(2-5) by (rule typesLoop_unsupported)
  from post have rest: "typesLoop rt conf (Suc (length before)) after
      (r0(fileNameOf rt name \<mapsto> [])) = Inr results"
    by (simp only: step)
  have "fileNameOf rt name \<in> dom results"
    using typesLoop_dom [OF rest, of "fileNameOf rt name"] by simp
  moreover have "results (fileNameOf rt name) = Some []"
    if "fileNameOf rt name \<notin> set (catalogueFileNames rt after)"
    using typesLoop_other_keys [OF rest that] by simp
  ultimately show ?thesis
    using step by simp
qed

lemma status_names:
  "\<not> hasPrefix ''Status'' ''_''" "\<not> ignored ''Status''" "fileNameOf (plainRuntime parse) ''Status'' = ''status_gen.go''"
  "ignored ''String''" "\<not> hasPrefix ''String'' ''_''" "hasPrefix ''__Schema'' ''_''"
  by (simp_all add: hasPrefix_def ignored_def internalTypeConfig_def fileNameOf_def plainRuntime_def asciiLower_def
      asciiLowerChar_def)

lemma status_run:
  "Generate (plainRuntime (\<lambda>s. Inr statusCatalogue)) s noConfig
     = Inr [''post_gen.go'' \<mapsto> ''type default;'', ''status_gen.go'' \<mapsto> []]"
  by (simp add: Generate_def plainRuntime_sel statusCatalogue_def objectType_sel post_not_skipped
      status_names unsupportedKinds_def plain_post StatusT_def StringT_def namedType_def
      SchemaMetaT_def)

text \<open>
  C1, as stated: the mapping has no entry under the file name of an \<^verbatim>\<open>ENUM\<close> entity. For the
  catalogue \<^verbatim>\<open>Post\<close>, \<^verbatim>\<open>Status\<close> (an enum), \<^verbatim>\<open>String\<close>, \<^verbatim>\<open>__Schema\<close> the run succeeds and its mapping has
  the entry \<^verbatim>\<open>status_gen.go\<close>, with the empty text (line 97 runs after the \<^verbatim>\<open>switch\<close> for every
  kind).
\<close>

theorem unsupported_kind_counterexample:
  "Kind StatusT = ''ENUM'' \<and> Name StatusT = Some ''Status'' \<and>
   \<not> hasPrefix ''Status'' ''_'' \<and> \<not> ignored ''Status'' \<and>
   fileNameOf (plainRuntime (\<lambda>s. Inr statusCatalogue)) ''Status'' = ''status_gen.go'' \<and>
   parseSchema (plainRuntime (\<lambda>s. Inr statusCatalogue)) statusText
     = Inr [objectType ''Post'' idAndTags, StatusT, StringT, SchemaMetaT] \<and>
   (case Generate (plainRuntime (\<lambda>s. Inr statusCatalogue)) statusText noConfig of
      Inl err \<Rightarrow> None
    | Inr results \<Rightarrow> results ''status_gen.go'') = Some []"
proof -
  have "parseSchema (plainRuntime (\<lambda>s. Inr statusCatalogue)) statusText
     = Inr [objectType ''Post'' idAndTags, StatusT, StringT, SchemaMetaT]"
    by (simp add: plainRuntime_sel statusCatalogue_def)
  moreover have "Kind StatusT = ''ENUM''" "Name StatusT = Some ''Status''"
    by (simp_all add: StatusT_def)
  ultimately show ?thesis
    by (simp add: status_run status_names)
qed

theorem unsupported_kind_empty_artifact_witness:
  "parseSchema (plainRuntime (\<lambda>s. Inr statusCatalogue)) statusText
     = Inr ([objectType ''Post'' idAndTags] @ StatusT # [StringT, SchemaMetaT]) \<and>
   Name StatusT = Some ''Status'' \<and> \<not> hasPrefix ''Status'' ''_'' \<and> \<not> ignored ''Status'' \<and>
   Kind StatusT \<in> set unsupportedKinds \<and>
   Generate (plainRuntime (\<lambda>s. Inr statusCatalogue)) statusText noConfig
     = Inr [''post_gen.go'' \<mapsto> ''type default;'', ''status_gen.go'' \<mapsto> []] \<and>
   fileNameOf (plainRuntime (\<lambda>s. Inr statusCatalogue)) ''Status'' \<in> dom [''post_gen.go'' \<mapsto> ''type default;'', ''status_gen.go'' \<mapsto> []] \<and>
   fileNameOf (plainRuntime (\<lambda>s. Inr statusCatalogue)) ''Status'' \<notin> set (catalogueFileNames (plainRuntime (\<lambda>s. Inr statusCatalogue)) [StringT, SchemaMetaT]) \<and>
   [''post_gen.go'' \<mapsto> ''type default;'', ''status_gen.go'' \<mapsto> []] (fileNameOf (plainRuntime (\<lambda>s. Inr statusCatalogue)) ''Status'') = Some []"
proof -
  let ?rt = "plainRuntime (\<lambda>s::string. Inr statusCatalogue :: error + qlType list)"
  have p: "parseSchema ?rt statusText
     = Inr ([objectType ''Post'' idAndTags] @ StatusT # [StringT, SchemaMetaT])"
    by (simp add: plainRuntime_sel statusCatalogue_def)
  have n: "Name StatusT = Some ''Status''" and k: "Kind StatusT \<in> set unsupportedKinds"
    by (simp_all add: StatusT_def unsupportedKinds_def)
  have c: "fileNameOf (plainRuntime (\<lambda>s. Inr statusCatalogue)) ''Status'' \<notin> set (catalogueFileNames (plainRuntime (\<lambda>s. Inr statusCatalogue)) [StringT, SchemaMetaT])"
    by (simp add: catalogueFileNames_def List.map_filter_simps StringT_def namedType_def
        SchemaMetaT_def fileNameOf_def plainRuntime_def asciiLower_def asciiLowerChar_def)
  show ?thesis
    using unsupported_kind_empty_artifact [OF p n status_names(1) status_names(2) k status_run, of 1 Map.empty]
      p n k c status_names(1,2) status_run
    by simp
qed

subsection \<open>An unknown variant for an entity that is not rendered\<close>

lemma default_post:
  "Type conf ''Post'' = None \<Longrightarrow>
   generateType (plainRuntime parse) site (objectType ''Post'' idAndTags) conf
     = Inr ''type default;''"
  by (simp add: generateType_def Let_def objectType_sel plainRuntime_sel withDefault_def
      typeConfOf_def plain_fields plain_default)

text \<open>
  C4, as stated: an unknown variant configured for any entity aborts the run. The variants
  of an entity that is not rendered are never looked up: with the unknown variant \<^verbatim>\<open>nope\<close>
  configured for the enum \<^verbatim>\<open>Status\<close>, the run returns a mapping.
\<close>

theorem unknown_variant_not_rendered_counterexample:
  "parseSchema (plainRuntime (\<lambda>s. Inr statusCatalogue)) statusText
     = Inr [objectType ''Post'' idAndTags, StatusT, StringT, SchemaMetaT] \<and>
   Kind StatusT = ''ENUM'' \<and>
   typeVariantUnknown (plainRuntime (\<lambda>s. Inr statusCatalogue)) unknownStatus StatusT \<and>
   Generate (plainRuntime (\<lambda>s. Inr statusCatalogue)) statusText unknownStatus
     = Inr [''post_gen.go'' \<mapsto> ''type default;'', ''status_gen.go'' \<mapsto> []]"
proof -
  let ?rt = "plainRuntime (\<lambda>s::string. Inr statusCatalogue :: error + qlType list)"
  have "parseSchema ?rt statusText = Inr [objectType ''Post'' idAndTags, StatusT, StringT, SchemaMetaT]"
    by (simp add: plainRuntime_sel statusCatalogue_def)
  moreover have "Kind StatusT = ''ENUM''"
    by (simp add: StatusT_def)
  moreover have "typeVariantUnknown ?rt unknownStatus StatusT"
    by (simp add: typeVariantUnknown_def StatusT_def typeConfOf_def unknownStatus_def
        withDefault_def plain_nope)
  moreover have "Generate ?rt statusText unknownStatus
     = Inr [''post_gen.go'' \<mapsto> ''type default;'', ''status_gen.go'' \<mapsto> []]"
    by (simp add: Generate_def plainRuntime_sel statusCatalogue_def objectType_sel post_not_skipped
      status_names unsupportedKinds_def default_post unknownStatus_def StatusT_def StringT_def
      namedType_def SchemaMetaT_def)
  ultimately show ?thesis by simp
qed

subsection \<open>The imports handed to the template of an entity: two runs\<close>










end
